theory Spec2Isabelle
  imports Complex_Main "HOL-Library.Sublist"
begin

section \<open>Numbers, dates and formatting of the host language\<close>

text \<open>
  The engines are TypeScript. A JavaScript \<open>number\<close> is modelled as an exact
  \<^typ>\<open>real\<close>, except in the last section of the definitions, where the lines
  that decompose a revenue change are modelled in double arithmetic. A division
  by a non-zero constant, or in a branch where a test of the source itself excludes a
  zero divisor, is written with HOL's \<open>/\<close>. Every other division is modelled by
  \<open>js_div\<close>, whose result \<open>None\<close> stands for \<open>NaN\<close> or an infinity; so are
  the divisions behind the percentages that the two revenue analyses return and store,
  although the source tests their divisors: the fields that hold these quotients have
  the type \<^typ>\<open>real option\<close>, and that they are never \<open>None\<close> is proved below.

  A \<open>Date\<close> is its number of milliseconds since the epoch (an \<^typ>\<open>int\<close>);
  a calendar day (\<open>toISOString().split('T')[0]\<close>, SQL \<open>DATE(timestamp)\<close>)
  is the number of the UTC day. The helpers \<open>subDays\<close> and
  \<open>differenceInDays\<close> belong to the library date-fns; they are modelled for a
  time zone without daylight saving, where a day is always 86400000 ms.
\<close>

definition js_div :: "real \<Rightarrow> real \<Rightarrow> real option" where
  "js_div a b = (if b = 0 then None else Some (a / b))"

text \<open>\<open>(a / b) * 100\<close>\<close>

definition percentOf :: "real \<Rightarrow> real \<Rightarrow> real option" where
  "percentOf a b = map_option (\<lambda>q. q * 100) (js_div a b)"

text \<open>\<open>a < b\<close> on numbers that may be \<open>NaN\<close>: false as soon as one of them is.\<close>

definition js_less :: "real option \<Rightarrow> real option \<Rightarrow> bool" where
  "js_less a b = (case (a, b) of (Some x, Some y) \<Rightarrow> x < y | _ \<Rightarrow> False)"

definition Math_round :: "real \<Rightarrow> int" where
  "Math_round x = \<lfloor>x + 1 / 2\<rfloor>"

definition msPerDay :: int where
  "msPerDay = 86400000"

definition subDays :: "int \<Rightarrow> int \<Rightarrow> int" where
  "subDays date amount = date - amount * msPerDay"

text \<open>Full days between two instants, truncated towards zero.\<close>

definition differenceInDays :: "int \<Rightarrow> int \<Rightarrow> int" where
  "differenceInDays laterDate earlierDate =
     (let diff = laterDate - earlierDate
      in if 0 \<le> diff then diff div msPerDay else - ((- diff) div msPerDay))"

definition isoDay :: "int \<Rightarrow> int" where
  "isoDay t = t div msPerDay"

text \<open>
  \<open>Number.prototype.toFixed(1)\<close>: the sign, then the integer \<open>n\<close> nearest to
  ten times the magnitude (the larger one on a tie), printed with a point before its
  last digit.
\<close>

definition digit :: "nat \<Rightarrow> char" where
  "digit d = ''0123456789'' ! d"

function showNat :: "nat \<Rightarrow> string" where
  "showNat n = (if n < 10 then [digit n] else showNat (n div 10) @ [digit (n mod 10)])"
  by pat_completeness auto
termination
  by (relation "measure id") auto

declare showNat.simps [simp del]

definition toFixed1 :: "real \<Rightarrow> string" where
  "toFixed1 x =
     (let n = nat \<lfloor>\<bar>x\<bar> * 10 + 1 / 2\<rfloor>
      in (if x < 0 then ''-'' else '''') @ showNat (n div 10) @ ''.'' @ [digit (n mod 10)])"

section \<open>Outcome evaluator: accuracy of a prediction\<close>

text \<open>
  An impact payload is a \<open>Record<string, any>\<close>; the engines only ever read and
  write numbers in it, so it is a finite map from keys to numbers.
\<close>

type_synonym impact = "string \<rightharpoonup> real"

definition calculateAccuracy :: "impact \<Rightarrow> impact \<Rightarrow> real" where
  "calculateAccuracy predicted actual =
     (case (predicted ''revenue_change_pct'', actual ''revenue_change_pct'') of
        (Some predVal, Some actualVal) \<Rightarrow>
          if predVal = 0 \<and> actualVal = 0 then 1
          else
            let error = \<bar>predVal - actualVal\<bar> / max \<bar>predVal\<bar> \<bar>actualVal\<bar>
            in max 0 (1 - error)
      | _ \<Rightarrow> 1 / 2)"

text \<open>\<open>x || 0\<close> on a possibly missing number.\<close>

definition orZero :: "real option \<Rightarrow> real" where
  "orZero v = (case v of None \<Rightarrow> 0 | Some x \<Rightarrow> x)"

definition generateEvaluationText :: "impact \<Rightarrow> impact \<Rightarrow> real \<Rightarrow> string" where
  "generateEvaluationText predicted actual accuracy =
     (let predChange = orZero (predicted ''revenue_change_pct'');
          actualChange = orZero (actual ''revenue_change_pct'')
      in if accuracy > 8 / 10 then
           ''Prediction was highly accurate. Expected '' @ toFixed1 predChange
             @ ''% change, actual was '' @ toFixed1 actualChange @ ''%.''
         else if accuracy > 5 / 10 then
           ''Prediction was moderately accurate. Expected '' @ toFixed1 predChange
             @ ''% change, actual was '' @ toFixed1 actualChange @ ''%.''
         else
           ''Prediction was off. Expected '' @ toFixed1 predChange
             @ ''% change, actual was '' @ toFixed1 actualChange @ ''%. Adjusting models.'')"

section \<open>The SQLite store shared by the server engines\<close>

text \<open>
  \<open>lib/engines.ts\<close> opens every server engine on the same database file, so one
  record holds its tables. A table is the list of its rows in insertion order. Only
  the columns that the engines read or write are kept. The clock (\<open>new Date()\<close>)
  is an explicit argument \<open>now\<close> of every operation that reads it; an operation
  that reads it several times in a row is given one instant.
\<close>

datatype status = pending | accepted | rejected | implemented

record decision_row =
  rowId :: int
  decisionType :: string
  entityId :: int
  entityType :: string
  recommendation :: string
  rationale :: string
  predictedImpact :: impact
  status :: status
  implementedAt :: "int option"
  createdAt :: int

record DecisionOutcome =
  decisionId :: int
  actualImpact :: impact
  evaluationDate :: int
  accuracyScore :: real
  outcomeNotes :: "string option"

record transaction_row =
  timestamp :: int
  quantity :: int
  price :: real
  total_amount :: real
  restaurant_id :: int
  item_id :: int

record effects =
  volumeEffect :: real
  volumeEffectPct :: "real option"
  priceEffect :: real
  priceEffectPct :: "real option"
  mixEffect :: real
  mixEffectPct :: "real option"

record insight_row =
  insight_type :: string
  insight_entity_id :: int
  insight_entity_type :: string
  title :: string
  insight_explanation :: string
  causal_factors :: effects

record baseline_row =
  baseline_item_id :: int
  baseline_restaurant_id :: int
  baseline_period_start :: int
  baseline_period_end :: int
  avg_daily_quantity :: "real option"
  avg_daily_revenue :: "real option"
  std_dev_quantity :: "real option"

record database =
  transactions :: "transaction_row list"
  decisions :: "decision_row list"
  decision_outcomes :: "DecisionOutcome list"
  insights :: "insight_row list"
  item_baselines :: "baseline_row list"

text \<open>SQL \<open>SUM\<close> over the selected rows: \<open>NULL\<close> when no row is selected.\<close>

definition sql_sum :: "real list \<Rightarrow> real option" where
  "sql_sum xs = (if xs = [] then None else Some (sum_list xs))"

subsection \<open>DecisionTracker\<close>

text \<open>
  The new row takes the next \<open>AUTOINCREMENT\<close> id (no row is ever deleted, so that
  is one more than the largest id in the table), the column default \<open>'pending'\<close>
  and no implementation date.
\<close>

definition logRecommendation :: "database \<Rightarrow> int \<Rightarrow> decision_row \<Rightarrow> int \<times> database" where
  "logRecommendation db now d =
     (let lastInsertRowid = fold max (map rowId (decisions db)) 0 + 1;
          row = d\<lparr>rowId := lastInsertRowid, status := pending,
                  implementedAt := None, createdAt := now\<rparr>
      in (lastInsertRowid, db\<lparr>decisions := decisions db @ [row]\<rparr>))"

text \<open>
  The two \<open>UPDATE\<close> statements of \<open>updateDecisionStatus\<close>. The TypeScript type of
  the requested status has the four values of \<^typ>\<open>status\<close>; the method has no
  other branch and no test of the stored status.
\<close>

definition updateDecisionStatus :: "database \<Rightarrow> int \<Rightarrow> int \<Rightarrow> status \<Rightarrow> database" where
  "updateDecisionStatus db now did st =
     (if st = implemented then
        db\<lparr>decisions :=
             map (\<lambda>r. if rowId r = did then r\<lparr>status := st, implementedAt := Some now\<rparr> else r)
               (decisions db)\<rparr>
      else
        db\<lparr>decisions :=
             map (\<lambda>r. if rowId r = did then r\<lparr>status := st\<rparr> else r) (decisions db)\<rparr>)"

definition logOutcome :: "database \<Rightarrow> DecisionOutcome \<Rightarrow> database" where
  "logOutcome db outcome = db\<lparr>decision_outcomes := decision_outcomes db @ [outcome]\<rparr>"

definition getDecisionById :: "database \<Rightarrow> int \<Rightarrow> decision_row option" where
  "getDecisionById db did = find (\<lambda>r. rowId r = did) (decisions db)"

definition getPendingDecisions :: "database \<Rightarrow> int \<Rightarrow> decision_row list" where
  "getPendingDecisions db restaurantId =
     map (\<lambda>r. r\<lparr>entityId := restaurantId, entityType := ''restaurant'', status := pending,
                  implementedAt := None\<rparr>)
       (rev (sort_key createdAt
          (filter (\<lambda>r. entityId r = restaurantId \<and> status r = pending) (decisions db))))"

subsection \<open>OutcomeEvaluator\<close>

record EvaluationResult =
  predicted :: impact
  actual :: impact
  accuracy :: real
  evaluation :: string

definition revenueChangePctOf :: "real \<Rightarrow> real \<Rightarrow> real" where
  "revenueChangePctOf beforeRev afterRev =
     (if beforeRev > 0 then ((afterRev - beforeRev) / beforeRev) * 100 else 0)"

definition impactRecord :: "real \<Rightarrow> real \<Rightarrow> impact" where
  "impactRecord beforeRev afterRev =
     [''revenue_change_pct'' \<mapsto> revenueChangePctOf beforeRev afterRev,
      ''before_revenue'' \<mapsto> beforeRev,
      ''after_revenue'' \<mapsto> afterRev]"

definition itemRevenue :: "database \<Rightarrow> int \<Rightarrow> int \<Rightarrow> int \<Rightarrow> real option" where
  "itemRevenue db itemId fromDay toDay =
     sql_sum (map (\<lambda>t. real_of_int (quantity t) * price t)
       (filter (\<lambda>t. item_id t = itemId \<and> fromDay \<le> isoDay (timestamp t)
                     \<and> isoDay (timestamp t) \<le> toDay) (transactions db)))"

definition restaurantRevenue :: "database \<Rightarrow> int \<Rightarrow> int \<Rightarrow> int \<Rightarrow> real option" where
  "restaurantRevenue db restaurantId fromDay toDay =
     sql_sum (map total_amount
       (filter (\<lambda>t. restaurant_id t = restaurantId \<and> fromDay \<le> isoDay (timestamp t)
                     \<and> isoDay (timestamp t) \<le> toDay) (transactions db)))"

definition measureItemImpact :: "database \<Rightarrow> int \<Rightarrow> int \<Rightarrow> int \<Rightarrow> impact" where
  "measureItemImpact db now itemId implementationDate =
     (let beforeStart = subDays implementationDate 14;
          beforeEnd = implementationDate;
          afterStart = implementationDate;
          afterEnd = subDays now (- 7);
          beforeRev = orZero (itemRevenue db itemId (isoDay beforeStart) (isoDay beforeEnd));
          afterRev = orZero (itemRevenue db itemId (isoDay afterStart) (isoDay afterEnd))
      in impactRecord beforeRev afterRev)"

definition measureRestaurantImpact :: "database \<Rightarrow> int \<Rightarrow> int \<Rightarrow> int \<Rightarrow> impact" where
  "measureRestaurantImpact db now restaurantId implementationDate =
     (let beforeStart = subDays implementationDate 14;
          beforeEnd = implementationDate;
          afterStart = implementationDate;
          afterEnd = subDays now (- 7);
          beforeRev = orZero (restaurantRevenue db restaurantId (isoDay beforeStart) (isoDay beforeEnd));
          afterRev = orZero (restaurantRevenue db restaurantId (isoDay afterStart) (isoDay afterEnd))
      in impactRecord beforeRev afterRev)"

text \<open>
  \<open>evaluateDecision\<close> returns its result (\<open>None\<close> for \<open>null\<close>) and the store it
  leaves. Every \<open>return null\<close> of the source is a branch that hands the store back
  untouched; the only write is the \<open>logOutcome\<close> of the last branch.
\<close>

definition evaluateDecision :: "database \<Rightarrow> int \<Rightarrow> int \<Rightarrow> EvaluationResult option \<times> database" where
  "evaluateDecision db now did =
     (case getDecisionById db did of
        None \<Rightarrow> (None, db)
      | Some d \<Rightarrow>
          if status d \<noteq> implemented then (None, db)
          else
            (case implementedAt d of
               None \<Rightarrow> (None, db)
             | Some implAt \<Rightarrow>
                 let daysSinceImplementation = differenceInDays now implAt
                 in if daysSinceImplementation < 7 then (None, db)
                    else
                      (case (if entityType d = ''item''
                             then Some (measureItemImpact db now (entityId d) implAt)
                             else if entityType d = ''restaurant''
                             then Some (measureRestaurantImpact db now (entityId d) implAt)
                             else None) of
                         None \<Rightarrow> (None, db)
                       | Some impactNow \<Rightarrow>
                           let acc = calculateAccuracy (predictedImpact d) impactNow;
                               db' = logOutcome db
                                 \<lparr>decisionId = did, actualImpact = impactNow,
                                  evaluationDate = now, accuracyScore = acc, outcomeNotes = None\<rparr>
                           in (Some \<lparr>predicted = predictedImpact d, actual = impactNow,
                                     accuracy = acc,
                                     evaluation =
                                       generateEvaluationText (predictedImpact d) impactNow acc\<rparr>,
                               db'))))"

subsection \<open>InsightEngine\<close>

text \<open>
  One row of the \<open>GROUP BY item_id\<close> query of \<open>analyzeRevenueChange\<close>. Every
  group has at least one transaction, so \<open>AVG(price)\<close> divides by a positive count.
  The rows come out with distinct item ids; the two \<open>Map\<close>s that the method builds
  from them therefore iterate in row order, and \<open>Map.get\<close> is the search for the
  row with that id.
\<close>

record period_row =
  r_item_id :: int
  r_qty :: int
  r_avg_price :: real
  r_revenue :: real

definition periodQuery :: "database \<Rightarrow> int \<Rightarrow> int \<Rightarrow> int \<Rightarrow> period_row list" where
  "periodQuery db restaurantId fromDay toDay =
     (let selected = filter (\<lambda>t. restaurant_id t = restaurantId \<and> fromDay \<le> isoDay (timestamp t)
                                   \<and> isoDay (timestamp t) \<le> toDay) (transactions db)
      in map (\<lambda>i.
           let g = filter (\<lambda>t. item_id t = i) selected
           in \<lparr>r_item_id = i, r_qty = sum_list (map quantity g),
                r_avg_price = sum_list (map price g) / real (length g),
                r_revenue = sum_list (map (\<lambda>t. real_of_int (quantity t) * price t) g)\<rparr>)
         (sort (remdups (map item_id selected))))"

definition mapGet :: "period_row list \<Rightarrow> int \<Rightarrow> period_row option" where
  "mapGet rows i = find (\<lambda>r. r_item_id r = i) rows"

record RevenueDecomposition =
  revenueChange :: real
  revenueChangePct :: "real option"
  decomposition :: effects
  explanation :: string

text \<open>\<open>Array.prototype.join\<close>\<close>

fun joinWith :: "string \<Rightarrow> string list \<Rightarrow> string" where
  "joinWith sep [] = []"
| "joinWith sep [x] = x"
| "joinWith sep (x # y # ys) = x @ sep @ joinWith sep (y # ys)"

definition generateExplanation :: "real \<Rightarrow> real \<Rightarrow> real \<Rightarrow> real \<Rightarrow> string" where
  "generateExplanation volume priceE mix tot =
     (if tot = 0 then ''No significant revenue change detected.''
      else
        let threshold = \<bar>tot\<bar> * (3 / 10);
            factors =
              (if \<bar>volume\<bar> > threshold
               then [''customer demand '' @ (if volume > 0 then ''increased'' else ''decreased'')]
               else [])
              @ (if \<bar>priceE\<bar> > threshold
                 then [''prices were '' @ (if priceE > 0 then ''raised'' else ''lowered'')]
                 else [])
              @ (if \<bar>mix\<bar> > threshold then [''product mix changed''] else [])
        in if length factors = 0
           then ''Revenue change was due to minor fluctuations across multiple factors.''
           else
             let changeDirection = (if tot > 0 then ''increased'' else ''decreased'')
             in ''Revenue '' @ changeDirection @ '' primarily because ''
                  @ joinWith '' and '' factors @ ''.'')"

definition storeInsight :: "database \<Rightarrow> insight_row \<Rightarrow> database" where
  "storeInsight db insight = db\<lparr>insights := insights db @ [insight]\<rparr>"

text \<open>
  \<open>InsightEngine.analyzeRevenueChange\<close>. Its return type is a decomposition, never
  \<open>null\<close>. The sums and products are exact here; \<open>InsightEngine_decomposition\<close>
  below computes the same effects with every result rounded.
\<close>

definition InsightEngine_analyzeRevenueChange ::
    "database \<Rightarrow> int \<Rightarrow> int \<Rightarrow> int \<Rightarrow> int \<Rightarrow> RevenueDecomposition \<times> database" where
  "InsightEngine_analyzeRevenueChange db now restaurantId currentPeriodDays comparisonPeriodDays =
     (let today = now;
          currentStart = subDays today currentPeriodDays;
          comparisonStart = subDays currentStart comparisonPeriodDays;
          comparisonEnd = currentStart;
          currentData = periodQuery db restaurantId (isoDay currentStart) (isoDay today);
          comparisonData =
            periodQuery db restaurantId (isoDay comparisonStart) (isoDay comparisonEnd);
          totalCurrentRev = sum_list (map r_revenue currentData);
          totalComparisonRev = sum_list (map r_revenue comparisonData);
          change = totalCurrentRev - totalComparisonRev;
          volumeE = sum_list (map (\<lambda>cmp.
              let qtyChange =
                    (case mapGet currentData (r_item_id cmp) of
                       None \<Rightarrow> 0 | Some current \<Rightarrow> r_qty current) - r_qty cmp
              in real_of_int qtyChange * r_avg_price cmp) comparisonData);
          priceE = sum_list (map (\<lambda>current.
              case mapGet comparisonData (r_item_id current) of
                None \<Rightarrow> 0
              | Some cmp \<Rightarrow>
                  let priceChange = r_avg_price current - r_avg_price cmp
                  in priceChange * real_of_int (r_qty current)) currentData);
          mixE = change - volumeE - priceE;
          parts = \<lparr>volumeEffect = volumeE,
                    volumeEffectPct = (if change \<noteq> 0 then percentOf volumeE \<bar>change\<bar> else Some 0),
                    priceEffect = priceE,
                    priceEffectPct = (if change \<noteq> 0 then percentOf priceE \<bar>change\<bar> else Some 0),
                    mixEffect = mixE,
                    mixEffectPct = (if change \<noteq> 0 then percentOf mixE \<bar>change\<bar> else Some 0)\<rparr>;
          result = \<lparr>revenueChange = change,
                     revenueChangePct =
                       (if totalComparisonRev > 0 then percentOf change totalComparisonRev
                        else Some 0),
                     decomposition = parts,
                     explanation = generateExplanation volumeE priceE mixE change\<rparr>
      in (result,
          storeInsight db
            \<lparr>insight_type = ''revenue_decomposition'', insight_entity_id = restaurantId,
             insight_entity_type = ''restaurant'', title = ''Revenue Change Analysis'',
             insight_explanation = explanation result, causal_factors = parts\<rparr>))"

subsection \<open>AnalyticsEngine: item baselines\<close>

text \<open>
  The baseline table of the SQLite store has no version column; a row is identified by
  \<open>UNIQUE(item_id, baseline_period_end)\<close>, the period end being a calendar day.
  \<open>INSERT OR REPLACE\<close> deletes the row that conflicts on that key and inserts the
  new one.
\<close>

record daily_row =
  d_sale_date :: int
  d_daily_qty :: int
  d_daily_rev :: real

definition dailyData :: "database \<Rightarrow> int \<Rightarrow> int \<Rightarrow> int \<Rightarrow> int \<Rightarrow> daily_row list" where
  "dailyData db itemId restaurantId fromDay toDay =
     (let selected = filter (\<lambda>t. item_id t = itemId \<and> restaurant_id t = restaurantId
                                   \<and> fromDay \<le> isoDay (timestamp t)
                                   \<and> isoDay (timestamp t) \<le> toDay) (transactions db)
      in map (\<lambda>day.
           let g = filter (\<lambda>t. isoDay (timestamp t) = day) selected
           in \<lparr>d_sale_date = day, d_daily_qty = sum_list (map quantity g),
                d_daily_rev = sum_list (map (\<lambda>t. real_of_int (quantity t) * price t) g)\<rparr>)
         (sort (remdups (map (\<lambda>t. isoDay (timestamp t)) selected))))"

text \<open>
  The private helpers \<open>mean\<close> and \<open>standardDeviation\<close> of this engine divide by the
  length of their argument without a test; their only caller passes at least 7
  numbers.
\<close>

definition AnalyticsEngine_mean :: "real list \<Rightarrow> real option" where
  "AnalyticsEngine_mean numbers = js_div (sum_list numbers) (real (length numbers))"

definition standardDeviation :: "real list \<Rightarrow> real option" where
  "standardDeviation numbers =
     (case AnalyticsEngine_mean numbers of
        None \<Rightarrow> None
      | Some avg \<Rightarrow>
          map_option sqrt (AnalyticsEngine_mean (map (\<lambda>num. (num - avg)\<^sup>2) numbers)))"

definition insertOrReplaceBaseline :: "database \<Rightarrow> baseline_row \<Rightarrow> database" where
  "insertOrReplaceBaseline db row =
     db\<lparr>item_baselines :=
          filter (\<lambda>r. \<not> (baseline_item_id r = baseline_item_id row
                          \<and> baseline_period_end r = baseline_period_end row)) (item_baselines db)
          @ [row]\<rparr>"

definition AnalyticsEngine_computeItemBaseline ::
    "database \<Rightarrow> int \<Rightarrow> int \<Rightarrow> int \<Rightarrow> int \<Rightarrow> baseline_row option \<times> database" where
  "AnalyticsEngine_computeItemBaseline db now itemId restaurantId lookbackDays =
     (let endDate = now;
          startDate = subDays endDate lookbackDays;
          rows = dailyData db itemId restaurantId (isoDay startDate) (isoDay endDate)
      in if length rows < 7 then (None, db)
         else
           let quantities = map (\<lambda>r. real_of_int (d_daily_qty r)) rows;
               revenues = map d_daily_rev rows;
               row = \<lparr>baseline_item_id = itemId, baseline_restaurant_id = restaurantId,
                      baseline_period_start = isoDay startDate,
                      baseline_period_end = isoDay endDate,
                      avg_daily_quantity = AnalyticsEngine_mean quantities,
                      avg_daily_revenue = AnalyticsEngine_mean revenues,
                      std_dev_quantity = standardDeviation quantities\<rparr>
           in (Some row, insertOrReplaceBaseline db row))"

section \<open>The Prisma store of the application routes\<close>

text \<open>
  The routes and the asynchronous engines read orders and menu items through Prisma.
  An order carries its line items; the \<open>orderItems\<close> relation of a menu item is
  the list of line items that refer to it, each with the status of its order.
  \<open>orderedQuantity\<close> is the column \<open>quantity\<close> and \<open>priceAtTime\<close> the unit
  price stored on the line item.
\<close>

record OrderItem =
  menuItemId :: string
  orderedQuantity :: int
  priceAtTime :: real

record Order =
  restaurantId :: int
  orderTimestamp :: int
  channel :: string
  totalAmount :: real
  orderStatus :: string
  orderItems :: "OrderItem list"

record MenuItem =
  menuId :: string
  menuName :: string
  costPrice :: real
  sellingPrice :: real
  prepTime :: "nat option"

definition itemOrderItems :: "Order list \<Rightarrow> string \<Rightarrow> (OrderItem \<times> string) list" where
  "itemOrderItems os mid =
     concat (map (\<lambda>ord. map (\<lambda>oi. (oi, orderStatus ord))
                          (filter (\<lambda>oi. menuItemId oi = mid) (orderItems ord))) os)"

definition sumQuantity :: "OrderItem list \<Rightarrow> int" where
  "sumQuantity ois = sum_list (map orderedQuantity ois)"

definition sumRevenue :: "OrderItem list \<Rightarrow> real" where
  "sumRevenue ois = sum_list (map (\<lambda>oi. priceAtTime oi * real_of_int (orderedQuantity oi)) ois)"

text \<open>\<open>xs.length || 1\<close>\<close>

definition lengthOr1 :: "'a list \<Rightarrow> nat" where
  "lengthOr1 xs = (if length xs = 0 then 1 else length xs)"

text \<open>
  The popularity index, written the same way in each menu route:
  \<open>avgOrdersPerItem > 0 ? Math.min(100, (orders / avgOrdersPerItem) * 50) : 0\<close>.
\<close>

definition popularityIndex :: "real \<Rightarrow> real \<Rightarrow> real" where
  "popularityIndex avgOrdersPerItem itemOrders =
     (if avgOrdersPerItem > 0 then min 100 ((itemOrders / avgOrdersPerItem) * 50) else 0)"

subsection \<open>Menu engineering route\<close>

datatype EngineeringCategory = Stars | Plowhorses | Puzzles | Dogs

definition engineeringCategory :: "real \<Rightarrow> real \<Rightarrow> EngineeringCategory" where
  "engineeringCategory popularity margin =
     (if popularity \<ge> 50 \<and> margin \<ge> 680 then Stars
      else if popularity \<ge> 50 \<and> margin < 680 then Plowhorses
      else if popularity < 50 \<and> margin \<ge> 680 then Puzzles
      else Dogs)"

record MenuEngineering =
  me_id :: string
  me_popularity :: int
  me_orders :: int
  me_category :: EngineeringCategory
  me_margin :: real
  me_revenue :: real
  me_revenuePerMinute :: real

text \<open>
  The route classifies on the unrounded popularity and reports the rounded one. The
  preparation time is the constant 10 there.
\<close>

definition menuEngineering :: "MenuItem list \<Rightarrow> Order list \<Rightarrow> MenuEngineering list" where
  "menuEngineering items os =
     (let allOrderItems = concat (map orderItems os);
          totalOrders = sumQuantity allOrderItems;
          avgOrdersPerItem = real_of_int totalOrders / real (lengthOr1 items)
      in map (\<lambda>item.
           let ois = map fst (itemOrderItems os (menuId item));
               itemOrders = sumQuantity ois;
               revenue = sumRevenue ois;
               margin = sellingPrice item - costPrice item;
               popularity = popularityIndex avgOrdersPerItem (real_of_int itemOrders);
               prep = (10::real);
               revenuePerMinute = (if prep > 0 then margin / prep else 0)
           in \<lparr>me_id = menuId item, me_popularity = Math_round popularity,
                me_orders = itemOrders,
                me_category = engineeringCategory popularity margin,
                me_margin = margin, me_revenue = revenue,
                me_revenuePerMinute = revenuePerMinute\<rparr>) items)"

subsection \<open>Decisions route\<close>

text \<open>
  A generated decision. \<open>impactMin\<close> and \<open>impactMax\<close> are \<open>impact.min\<close> and
  \<open>impact.max\<close>, with \<open>None\<close> for a number that is not finite. The free texts
  of a decision (\<open>reason\<close>, \<open>risks\<close>, \<open>recommendation\<close>), its constant status
  \<open>pending\<close> and its creation time are not part of the model: nothing is computed
  from them.
\<close>

record Decision =
  dec_id :: string
  action :: string
  item :: string
  category :: string
  priority :: string
  impactMin :: "int option"
  impactMax :: "int option"
  confidence :: nat

record MenuMetrics =
  m_id :: string
  m_name :: string
  m_popularity :: real
  m_margin :: real
  m_revenue :: real
  m_orders :: int
  m_price :: real
  m_cost :: real
  m_prepTime :: nat

definition getMenuEngineering :: "MenuItem list \<Rightarrow> Order list \<Rightarrow> MenuMetrics list" where
  "getMenuEngineering items os =
     (let completed = (\<lambda>mi. map fst (filter (\<lambda>p. snd p = ''COMPLETED'')
                                       (itemOrderItems os (menuId mi))));
          totalOrders = sum_list (map (\<lambda>mi. sumQuantity (completed mi)) items);
          avgOrdersPerItem = real_of_int totalOrders / real (lengthOr1 items)
      in map (\<lambda>mi.
           let orders = sumQuantity (completed mi)
           in \<lparr>m_id = menuId mi, m_name = menuName mi,
                m_popularity = popularityIndex avgOrdersPerItem (real_of_int orders),
                m_margin = sellingPrice mi - costPrice mi,
                m_revenue = sumRevenue (completed mi),
                m_orders = orders,
                m_price = sellingPrice mi, m_cost = costPrice mi,
                m_prepTime = (case prepTime mi of None \<Rightarrow> 10 | Some n \<Rightarrow> if n = 0 then 10 else n)\<rparr>)
           items)"

text \<open>The three independent tests of the menu loop, for one item, in source order.\<close>

definition promoteDecision :: "MenuMetrics \<Rightarrow> Decision list" where
  "promoteDecision it =
     (if m_popularity it < 50 \<and> m_margin it \<ge> 680 then
        let projectedIncrease = real_of_int (m_orders it) * (45 / 100);
            impact = projectedIncrease * m_margin it
        in [\<lparr>dec_id = ''DEC-MENU-'' @ m_id it, action = ''Promote'', item = m_name it,
              category = ''Menu'',
              priority = (if m_margin it > 1000 then ''high'' else ''medium''),
              impactMin = Some (Math_round (impact * (7 / 10))),
              impactMax = Some (Math_round (impact * (12 / 10))),
              confidence = 75\<rparr>]
      else [])"

definition repriceDecision :: "MenuMetrics \<Rightarrow> Decision list" where
  "repriceDecision it =
     (if m_popularity it \<ge> 50 \<and> m_margin it < 680 \<and> m_margin it > 0 then
        let priceIncrease = real_of_int (Math_round (m_price it * (15 / 100)));
            volumeLoss = 25 / 100;
            newOrders = real_of_int (m_orders it) * (1 - volumeLoss);
            newMargin = (m_price it + priceIncrease) - m_cost it;
            impact = (newOrders * newMargin) - (real_of_int (m_orders it) * m_margin it)
        in [\<lparr>dec_id = ''DEC-PRICE-'' @ m_id it, action = ''Reprice'', item = m_name it,
              category = ''Menu'',
              priority = (if m_orders it > 200 then ''high'' else ''medium''),
              impactMin = Some (Math_round (impact * (8 / 10))),
              impactMax = Some (Math_round (impact * (11 / 10))),
              confidence = 70\<rparr>]
      else [])"

definition removeDecision :: "MenuMetrics \<Rightarrow> Decision list" where
  "removeDecision it =
     (if m_popularity it < 50 \<and> m_margin it < 680 \<and> m_prepTime it > 15 then
        let opportunityCost = real (m_prepTime it) * real_of_int (m_orders it) * (23 / 10);
            impact = opportunityCost - (real_of_int (m_orders it) * m_margin it)
        in if impact > 0 then
             [\<lparr>dec_id = ''DEC-REMOVE-'' @ m_id it, action = ''Remove'', item = m_name it,
               category = ''Menu'', priority = ''medium'',
               impactMin = Some (Math_round (impact * (6 / 10))),
               impactMax = Some (Math_round (impact * (14 / 10))),
               confidence = 65\<rparr>]
           else []
      else [])"

definition menuDecisions :: "MenuMetrics list \<Rightarrow> Decision list" where
  "menuDecisions menuData =
     concat (map (\<lambda>it. promoteDecision it @ repriceDecision it @ removeDecision it) menuData)"

text \<open>\<open>String.prototype.includes\<close>\<close>

fun str_includes :: "string \<Rightarrow> string \<Rightarrow> bool" where
  "str_includes [] sub = (sub = [])"
| "str_includes (c # cs) sub = (prefix sub (c # cs) \<or> str_includes cs sub)"

text \<open>The keys of a JavaScript \<open>Map\<close>, in the order of their first insertion.\<close>

definition firstOccurrences :: "'a list \<Rightarrow> 'a list" where
  "firstOccurrences xs = rev (remdups (rev xs))"

record ChannelMetrics =
  c_channel :: string
  c_totalOrders :: nat
  c_totalRevenue :: real
  c_netMargin :: real
  c_netMarginPercent :: real

text \<open>
  \<open>item.menuItem.costPrice\<close> of a line item: the foreign key of \<open>OrderItem\<close>
  (\<open>ON DELETE RESTRICT\<close>) guarantees that the menu item exists, so the second case
  is not reached on a store that satisfies its schema.
\<close>

definition menuItemCost :: "MenuItem list \<Rightarrow> string \<Rightarrow> real" where
  "menuItemCost items mid =
     (case find (\<lambda>mi. menuId mi = mid) items of Some mi \<Rightarrow> costPrice mi | None \<Rightarrow> 0)"

definition getChannelMetrics :: "MenuItem list \<Rightarrow> Order list \<Rightarrow> ChannelMetrics list" where
  "getChannelMetrics items os =
     (let completed = filter (\<lambda>ord. orderStatus ord = ''COMPLETED'') os
      in map (\<lambda>ch.
           let chOrders = filter (\<lambda>ord. channel ord = ch) completed;
               revenue = sum_list (map totalAmount chOrders);
               grossMargin = sum_list (map (\<lambda>ord. sum_list (map (\<lambda>oi.
                    priceAtTime oi * real_of_int (orderedQuantity oi)
                      - menuItemCost items (menuItemId oi) * real_of_int (orderedQuantity oi))
                    (orderItems ord))) chOrders);
               platformFeePercent =
                 (if str_includes ch ''zomato'' \<or> str_includes ch ''swiggy'' then 25 / 100
                  else if ch = ''booking'' then 5 / 100 else 0);
               platformFees = revenue * platformFeePercent;
               netMargin = grossMargin - platformFees
           in \<lparr>c_channel = ch, c_totalOrders = length chOrders, c_totalRevenue = revenue,
                c_netMargin = netMargin,
                c_netMarginPercent = (if revenue > 0 then (netMargin / revenue) * 100 else 0)\<rparr>)
         (firstOccurrences (map channel completed)))"

record CapacityMetrics =
  h_hour :: int
  h_orders :: nat
  h_revenue :: real

text \<open>\<open>getHours()\<close>, for a server clock in UTC.\<close>

definition getHours :: "int \<Rightarrow> int" where
  "getHours t = (t mod msPerDay) div 3600000"

definition getCapacityMetrics :: "Order list \<Rightarrow> CapacityMetrics list" where
  "getCapacityMetrics os =
     (let completed = filter (\<lambda>ord. orderStatus ord = ''COMPLETED'') os
      in map (\<lambda>h.
           let hourOrders = filter (\<lambda>ord. getHours (orderTimestamp ord) = h) completed
           in \<lparr>h_hour = h, h_orders = length hourOrders,
                h_revenue = sum_list (map totalAmount hourOrders)\<rparr>)
         (firstOccurrences (map (\<lambda>ord. getHours (orderTimestamp ord)) completed)))"

text \<open>
  The share of the aggregators, \<open>aggregatorTotal / (aggregatorTotal + direct revenue)\<close>,
  is divided without a test of the divisor.
\<close>

definition channelDecision :: "ChannelMetrics list \<Rightarrow> Decision list" where
  "channelDecision channelData =
     (let directChannel = find (\<lambda>c. c_channel c = ''delivery-direct'') channelData;
          aggregatorChannels =
            filter (\<lambda>c. str_includes (c_channel c) ''zomato'' \<or> str_includes (c_channel c) ''swiggy'')
              channelData
      in case directChannel of
           None \<Rightarrow> []
         | Some direct \<Rightarrow>
             if length aggregatorChannels > 0 then
               let aggregatorTotal = sum_list (map c_totalRevenue aggregatorChannels);
                   aggregatorMargin = sum_list (map c_netMargin aggregatorChannels);
                   directMargin = c_netMargin direct
               in if directMargin > aggregatorMargin / real (length aggregatorChannels) then
                    let currentSplit =
                          js_div aggregatorTotal (aggregatorTotal + c_totalRevenue direct);
                        targetSplit = 3 / 10;
                        impact = map_option
                          (\<lambda>split. (split - targetSplit) * aggregatorTotal * (5 / 10)) currentSplit
                    in [\<lparr>dec_id = ''DEC-CHANNEL-001'', action = ''Optimize'',
                          item = ''Delivery Channel Mix'', category = ''Channel'',
                          priority = ''high'',
                          impactMin = map_option (\<lambda>i. Math_round (i * (7 / 10))) impact,
                          impactMax = map_option (\<lambda>i. Math_round (i * (13 / 10))) impact,
                          confidence = 75\<rparr>]
                  else []
             else [])"

definition capacityDecision :: "CapacityMetrics list \<Rightarrow> Decision list" where
  "capacityDecision capacityData =
     (let peakHours = filter (\<lambda>c. h_hour c \<ge> 18 \<and> h_hour c \<le> 21) capacityData;
          offPeakHours = filter (\<lambda>c. h_hour c \<ge> 14 \<and> h_hour c < 18) capacityData
      in if length peakHours > 0 \<and> length offPeakHours > 0 then
           let peakRevPASH = sum_list (map h_revenue peakHours) / (real (length peakHours) * 104);
               offPeakRevPASH =
                 sum_list (map h_revenue offPeakHours) / (real (length offPeakHours) * 104)
           in if peakRevPASH > offPeakRevPASH * 2 then
                let improvement = (peakRevPASH - offPeakRevPASH) * (11 / 100) * 104 * 3
                in [\<lparr>dec_id = ''DEC-CAPACITY-001'', action = ''Optimize'',
                      item = ''Peak Hour Capacity'', category = ''Operations'',
                      priority = ''medium'',
                      impactMin = Some (Math_round (improvement * (8 / 10))),
                      impactMax = Some (Math_round (improvement * (12 / 10))),
                      confidence = 65\<rparr>]
              else []
         else [])"

text \<open>
  The handler \<open>GET\<close> of the decisions route: no order at all gives the empty list;
  otherwise the menu, channel and capacity decisions, in that order.
\<close>

definition generateDecisions :: "MenuItem list \<Rightarrow> Order list \<Rightarrow> Decision list" where
  "generateDecisions items os =
     (if length os = 0 then []
      else menuDecisions (getMenuEngineering items os)
           @ channelDecision (getChannelMetrics items os)
           @ capacityDecision (getCapacityMetrics os))"

section \<open>The asynchronous engines on the Prisma store\<close>

record CausalFactor =
  factor :: string
  contribution :: real
  contributionPct :: "real option"
  direction :: string

record Metadata =
  currentValue :: real
  previousValue :: real
  absoluteChange :: real
  percentChange :: "real option"

text \<open>
  The insight that \<open>ExplainableInsightEngine\<close> returns, and the row it stores. The
  rendered texts of an insight (\<open>observation\<close>, \<open>explanation\<close>, \<open>formula\<close>,
  \<open>assumptions\<close>) print the numbers below and feed nothing back; they are left out.
\<close>

record DecomposedInsight =
  causalFactors :: "CausalFactor list"
  sampleSize :: nat
  confidenceScore :: real
  insightRecommendation :: "string option"
  metadata :: Metadata

record Insight =
  i_restaurantId :: int
  i_type :: string
  severity :: string
  i_causalFactors :: "CausalFactor list"
  i_sampleSize :: nat
  i_confidenceScore :: real
  i_recommendation :: "string option"
  expiresAt :: int

record ItemBaseline =
  b_menuItemId :: string
  periodStart :: int
  periodEnd :: int
  avgDailyQuantity :: real
  stdDevQuantity :: real
  avgDailyRevenue :: real
  stdDevRevenue :: real
  priceElasticity :: "real option"
  seasonalityIndex :: real
  b_sampleSize :: nat
  b_confidenceScore :: real
  version :: int

record prisma_store =
  orders :: "Order list"
  menuItems :: "MenuItem list"
  insightTable :: "Insight list"
  itemBaselineTable :: "ItemBaseline list"

subsection \<open>ExplainableInsightEngine\<close>

record ItemData =
  qty :: int
  revenue :: real
  avgPrice :: real

text \<open>\<open>Map.set\<close> on a map kept as the list of its entries in insertion order.\<close>

fun mapSet :: "string \<Rightarrow> ItemData \<Rightarrow> (string \<times> ItemData) list \<Rightarrow> (string \<times> ItemData) list" where
  "mapSet k v [] = [(k, v)]"
| "mapSet k v ((k', v') # m) = (if k' = k then (k, v) # m else (k', v') # mapSet k v m)"

definition aggregateItemData :: "Order list \<Rightarrow> (string \<times> ItemData) list" where
  "aggregateItemData os =
     (let itemMap =
            fold (\<lambda>oi m.
                   let existing = (case map_of m (menuItemId oi) of
                                     None \<Rightarrow> \<lparr>qty = 0, revenue = 0, avgPrice = 0\<rparr>
                                   | Some e \<Rightarrow> e)
                   in mapSet (menuItemId oi)
                        (existing\<lparr>qty := qty existing + orderedQuantity oi,
                                   revenue := revenue existing
                                     + real_of_int (orderedQuantity oi) * priceAtTime oi\<rparr>) m)
              (concat (map orderItems os)) []
      in map (\<lambda>(itemId, d).
                (itemId, d\<lparr>avgPrice := (if qty d > 0 then revenue d / real_of_int (qty d) else 0)\<rparr>))
           itemMap)"

text \<open>
  \<open>decomposeRevenueChange\<close>, without its \<open>formula\<close> and \<open>assumptions\<close> texts: the
  three factors in the order volume, price, mix. The sums and products are exact here;
  \<open>decomposeRevenueChange_rounded\<close> below computes the same effects with every result
  rounded.
\<close>

definition decomposeRevenueChange :: "Order list \<Rightarrow> Order list \<Rightarrow> real \<Rightarrow> CausalFactor list" where
  "decomposeRevenueChange currentOrders comparisonOrders totalRevenueChange =
     (let currentItems = aggregateItemData currentOrders;
          comparisonItems = aggregateItemData comparisonOrders;
          allItemIds = firstOccurrences (map fst currentItems @ map fst comparisonItems);
          volumeE = sum_list (map (\<lambda>itemId.
              case map_of comparisonItems itemId of
                None \<Rightarrow> 0
              | Some cmp \<Rightarrow>
                  let qtyChange = (case map_of currentItems itemId of
                                     None \<Rightarrow> 0 | Some cur \<Rightarrow> qty cur) - qty cmp
                  in real_of_int qtyChange * avgPrice cmp) allItemIds);
          priceE = sum_list (map (\<lambda>itemId.
              case (map_of currentItems itemId, map_of comparisonItems itemId) of
                (Some cur, Some cmp) \<Rightarrow>
                  let priceChange = avgPrice cur - avgPrice cmp
                  in real_of_int (qty cur) * priceChange
              | _ \<Rightarrow> 0) allItemIds);
          mixE = totalRevenueChange - volumeE - priceE;
          absTotal = \<bar>totalRevenueChange\<bar>;
          volumePct = (if absTotal > 0 then percentOf volumeE absTotal else Some 0);
          pricePct = (if absTotal > 0 then percentOf priceE absTotal else Some 0);
          mixPct = (if absTotal > 0 then percentOf mixE absTotal else Some 0)
      in [\<lparr>factor = ''Volume (Customer Demand)'', contribution = volumeE,
            contributionPct = volumePct,
            direction = (if volumeE \<ge> 0 then ''positive'' else ''negative'')\<rparr>,
          \<lparr>factor = ''Price Changes'', contribution = priceE, contributionPct = pricePct,
            direction = (if priceE \<ge> 0 then ''positive'' else ''negative'')\<rparr>,
          \<lparr>factor = ''Product Mix Shift'', contribution = mixE, contributionPct = mixPct,
            direction = (if mixE \<ge> 0 then ''positive'' else ''negative'')\<rparr>])"

text \<open>
  The balance of the two samples is divided without a test; when it is \<open>NaN\<close> the
  comparison \<open>balance < 0.5\<close> is false.
\<close>

definition calculateConfidenceScore :: "nat \<Rightarrow> nat \<Rightarrow> nat \<Rightarrow> real" where
  "calculateConfidenceScore totalSamples currentSamples comparisonSamples =
     (let sampleConfidence = min 1 (real totalSamples / 200);
          balance = js_div (real (min currentSamples comparisonSamples))
                           (real (max currentSamples comparisonSamples));
          balancePenalty = (if js_less balance (Some (5 / 10)) then 8 / 10 else 1)
      in min (85 / 100) (sampleConfidence * balancePenalty))"

definition generateRecommendation :: "CausalFactor list \<Rightarrow> real option \<Rightarrow> string option" where
  "generateRecommendation factors revenueChangePct' =
     (let isDecline = js_less revenueChangePct' (Some 0);
          isSignificant = js_less (Some 5) (map_option abs revenueChangePct')
      in if \<not> isSignificant then Some ''Revenue is stable. Continue monitoring trends.''
         else
           let primaryFactor = factor (hd factors)
           in if isDecline then
                if str_includes primaryFactor ''Volume'' then
                  Some ''Customer traffic has declined. Consider running targeted promotions to drive footfall.''
                else if str_includes primaryFactor ''Price'' then
                  Some ''Recent price increases may have negatively impacted demand. Consider testing smaller price increments.''
                else None
              else None)"

definition ExplainableInsightEngine_storeInsight ::
    "prisma_store \<Rightarrow> int \<Rightarrow> int \<Rightarrow> DecomposedInsight \<Rightarrow> prisma_store" where
  "ExplainableInsightEngine_storeInsight store now rid insight =
     (let changeMagnitude = \<bar>orZero (percentChange (metadata insight))\<bar>;
          sev = (if changeMagnitude > 20 then ''critical''
                 else if changeMagnitude > 10 then ''warning'' else ''info'')
      in store\<lparr>insightTable := insightTable store @
           [\<lparr>i_restaurantId = rid, i_type = ''revenue_decomposition'', severity = sev,
             i_causalFactors = causalFactors insight, i_sampleSize = sampleSize insight,
             i_confidenceScore = confidenceScore insight,
             i_recommendation = insightRecommendation insight,
             expiresAt = subDays now (- 7)\<rparr>]\<rparr>)"

text \<open>
  \<open>ExplainableInsightEngine.analyzeRevenueChange\<close>, with its two \<open>findMany\<close>
  queries first: \<open>None\<close> is the \<open>null\<close> it returns for insufficient data. The
  factors are sorted by decreasing magnitude of their contribution; the sort of the
  host language is stable, as \<open>sort_key\<close> is. \<open>generateRecommendation\<close> reads
  \<open>causalFactors[0]\<close> of a list that always has three elements.
\<close>

definition currentPeriodOrders :: "prisma_store \<Rightarrow> int \<Rightarrow> int \<Rightarrow> int \<Rightarrow> Order list" where
  "currentPeriodOrders store now rid currentPeriodDays =
     (let today = now;
          currentStart = subDays today currentPeriodDays
      in filter (\<lambda>ord. restaurantId ord = rid \<and> currentStart \<le> orderTimestamp ord
                       \<and> orderTimestamp ord \<le> today) (orders store))"

definition comparisonPeriodOrders :: "prisma_store \<Rightarrow> int \<Rightarrow> int \<Rightarrow> int \<Rightarrow> Order list" where
  "comparisonPeriodOrders store now rid currentPeriodDays =
     (let today = now;
          currentStart = subDays today currentPeriodDays;
          comparisonStart = subDays currentStart currentPeriodDays
      in filter (\<lambda>ord. restaurantId ord = rid \<and> comparisonStart \<le> orderTimestamp ord
                       \<and> orderTimestamp ord < currentStart) (orders store))"

definition ExplainableInsightEngine_analyzeRevenueChange ::
    "prisma_store \<Rightarrow> int \<Rightarrow> int \<Rightarrow> int \<Rightarrow> DecomposedInsight option \<times> prisma_store" where
  "ExplainableInsightEngine_analyzeRevenueChange store now rid currentPeriodDays =
     (let currentOrders = currentPeriodOrders store now rid currentPeriodDays;
          comparisonOrders = comparisonPeriodOrders store now rid currentPeriodDays
      in if length currentOrders = 0 \<or> length comparisonOrders = 0 then (None, store)
         else
           let currentRevenue = sum_list (map totalAmount currentOrders);
               comparisonRevenue = sum_list (map totalAmount comparisonOrders);
               change = currentRevenue - comparisonRevenue;
               changePct = (if comparisonRevenue \<noteq> 0 then percentOf change comparisonRevenue
                            else Some 0);
               factors = sort_key (\<lambda>f. - \<bar>contribution f\<bar>)
                           (decomposeRevenueChange currentOrders comparisonOrders change);
               samples = length currentOrders + length comparisonOrders;
               insight =
                 \<lparr>causalFactors = factors, sampleSize = samples,
                  confidenceScore = calculateConfidenceScore samples (length currentOrders)
                                      (length comparisonOrders),
                  insightRecommendation = generateRecommendation factors changePct,
                  metadata = \<lparr>currentValue = currentRevenue, previousValue = comparisonRevenue,
                               absoluteChange = change, percentChange = changePct\<rparr>\<rparr>
           in (Some insight, ExplainableInsightEngine_storeInsight store now rid insight))"

subsection \<open>ComputationEngine: item baselines\<close>

text \<open>
  One row of the daily query of \<open>computeItemBaseline\<close>: the line items of the menu
  item in orders not older than the start date, grouped by the day of the order and
  sorted by day. Each group has a line item, so \<open>AVG(priceAtTime)\<close> divides by a
  positive count.
\<close>

record DailyRow =
  sale_date :: int
  daily_qty :: int
  daily_rev :: real
  avg_price :: real

definition dailyQuery :: "prisma_store \<Rightarrow> string \<Rightarrow> int \<Rightarrow> DailyRow list" where
  "dailyQuery store mid startDate =
     (let selected = concat (map (\<lambda>ord.
            map (\<lambda>oi. (isoDay (orderTimestamp ord), oi))
              (filter (\<lambda>oi. menuItemId oi = mid) (orderItems ord)))
            (filter (\<lambda>ord. orderTimestamp ord \<ge> startDate) (orders store)))
      in map (\<lambda>day.
           let g = map snd (filter (\<lambda>p. fst p = day) selected)
           in \<lparr>sale_date = day, daily_qty = sumQuantity g,
                daily_rev = sum_list (map (\<lambda>oi. real_of_int (orderedQuantity oi) * priceAtTime oi) g),
                avg_price = sum_list (map priceAtTime g) / real (length g)\<rparr>)
         (sort (remdups (map fst selected))))"

record CleanDay =
  cd_qty :: real
  cd_rev :: real
  cd_price :: real

definition mean :: "real list \<Rightarrow> real" where
  "mean arr = (if length arr \<noteq> 0 then sum_list arr / real (length arr) else 0)"

definition stdDev :: "real list \<Rightarrow> real" where
  "stdDev arr =
     (if length arr < 2 then 0
      else
        let avg = mean arr;
            sumSqDiff = sum_list (map (\<lambda>val. (val - avg)\<^sup>2) arr)
        in sqrt (sumSqDiff / real (length arr)))"

text \<open>
  The loop of \<open>estimatePriceElasticity\<close> over consecutive days, as the list of the
  elasticities it adds up. The quotient \<open>e\<close> is taken only when the relative price
  change exceeds 2% in magnitude, hence is not zero.
\<close>

fun elasticities :: "CleanDay list \<Rightarrow> real list" where
  "elasticities (prev # cur # rest) =
     (if cd_price prev = 0 \<or> cd_qty prev = 0 then []
      else
        let pctChangePrice = (cd_price cur - cd_price prev) / cd_price prev;
            pctChangeQty = (cd_qty cur - cd_qty prev) / cd_qty prev
        in if \<bar>pctChangePrice\<bar> > 2 / 100 then
             let e = pctChangeQty / pctChangePrice
             in if e > - 10 \<and> e < 10 then [e] else []
           else [])
     @ elasticities (cur # rest)"
| "elasticities _ = []"

definition estimatePriceElasticity :: "CleanDay list \<Rightarrow> real option" where
  "estimatePriceElasticity cleanData =
     (let es = elasticities cleanData
      in if length es > 0 then Some (sum_list es / real (length es)) else None)"

definition estimateSeasonality :: "CleanDay list \<Rightarrow> real" where
  "estimateSeasonality cleanData = 1"

text \<open>
  \<open>findFirst\<close> with \<open>where: { menuItemId, periodEnd: endDate }\<close> and
  \<open>orderBy: { version: 'desc' }\<close>: a row of that item and period end with the highest
  version, if there is one.
\<close>

definition findLatestBaseline :: "prisma_store \<Rightarrow> string \<Rightarrow> int \<Rightarrow> ItemBaseline option" where
  "findLatestBaseline store mid endDate =
     (case rev (sort_key version
             (filter (\<lambda>b. b_menuItemId b = mid \<and> periodEnd b = endDate) (itemBaselineTable store))) of
        [] \<Rightarrow> None
      | b # _ \<Rightarrow> Some b)"

text \<open>
  \<open>ComputationEngine.computeItemBaseline\<close> returns nothing; its effect is the store
  it leaves. The end of the period is the instant of the call.
\<close>

definition ComputationEngine_computeItemBaseline ::
    "prisma_store \<Rightarrow> int \<Rightarrow> string \<Rightarrow> int \<Rightarrow> prisma_store" where
  "ComputationEngine_computeItemBaseline store now mid lookbackDays =
     (let endDate = now;
          startDate = subDays endDate lookbackDays;
          dailyData = dailyQuery store mid startDate
      in if length dailyData < 5 then store
         else
           let cleanData = map (\<lambda>d. \<lparr>cd_qty = real_of_int (daily_qty d), cd_rev = daily_rev d,
                                         cd_price = avg_price d\<rparr>) dailyData;
               quantities = map cd_qty cleanData;
               revenues = map cd_rev cleanData;
               avgQty = mean quantities;
               stdQty = stdDev quantities;
               avgRev = mean revenues;
               stdRev = stdDev revenues;
               elasticity = estimatePriceElasticity cleanData;
               seasonality = estimateSeasonality cleanData;
               cv = (if avgQty > 0 then stdQty / avgQty else 1);
               conf = max 0 ((1 - cv) * min 1 (real (length cleanData) / 30));
               existing = findLatestBaseline store mid endDate;
               newVersion = (case existing of None \<Rightarrow> 0 | Some b \<Rightarrow> version b) + 1
           in store\<lparr>itemBaselineTable := itemBaselineTable store @
                [\<lparr>b_menuItemId = mid, periodStart = startDate, periodEnd = endDate,
                  avgDailyQuantity = avgQty, stdDevQuantity = stdQty,
                  avgDailyRevenue = avgRev, stdDevRevenue = stdRev,
                  priceElasticity = elasticity, seasonalityIndex = seasonality,
                  b_sampleSize = length cleanData, b_confidenceScore = conf,
                  version = newVersion\<rparr>]\<rparr>)"

section \<open>The revenue decomposition in double arithmetic\<close>






record rounded_effects =
  re_revenueChange :: real
  re_volumeEffect :: real
  re_priceEffect :: real
  re_mixEffect :: real

text \<open>
  \<open>InsightEngine.analyzeRevenueChange\<close> from the two totals to the mix effect, on the
  rows that its two queries return. Quantities are whole numbers, and their differences
  are exact; each sum, difference and product of amounts is rounded, in the order in
  which the source evaluates it (\<open>reduce\<close> and the two loops start from 0).
\<close>

definition InsightEngine_decomposition ::
    "(real \<Rightarrow> real) \<Rightarrow> period_row list \<Rightarrow> period_row list \<Rightarrow> rounded_effects" where
  "InsightEngine_decomposition rnd currentData comparisonData =
     (let totalCurrentRev = fold (\<lambda>item s. rnd (s + r_revenue item)) currentData 0;
          totalComparisonRev = fold (\<lambda>item s. rnd (s + r_revenue item)) comparisonData 0;
          change = rnd (totalCurrentRev - totalComparisonRev);
          volumeE = fold (\<lambda>cmp v.
              let qtyChange =
                    (case mapGet currentData (r_item_id cmp) of
                       None \<Rightarrow> 0 | Some current \<Rightarrow> r_qty current) - r_qty cmp
              in rnd (v + rnd (real_of_int qtyChange * r_avg_price cmp))) comparisonData 0;
          priceE = fold (\<lambda>current p.
              case mapGet comparisonData (r_item_id current) of
                None \<Rightarrow> p
              | Some cmp \<Rightarrow>
                  let priceChange = rnd (r_avg_price current - r_avg_price cmp)
                  in rnd (p + rnd (priceChange * real_of_int (r_qty current)))) currentData 0;
          mixE = rnd (rnd (change - volumeE) - priceE)
      in \<lparr>re_revenueChange = change, re_volumeEffect = volumeE, re_priceEffect = priceE,
           re_mixEffect = mixE\<rparr>)"

text \<open>
  The same lines of \<open>ExplainableInsightEngine.decomposeRevenueChange\<close>, on the two
  maps that \<open>aggregateItemData\<close> returns and the total revenue change it is given.
\<close>

definition decomposeRevenueChange_rounded ::
    "(real \<Rightarrow> real) \<Rightarrow> (string \<times> ItemData) list \<Rightarrow> (string \<times> ItemData) list \<Rightarrow> real
       \<Rightarrow> rounded_effects" where
  "decomposeRevenueChange_rounded rnd currentItems comparisonItems totalRevenueChange =
     (let allItemIds = firstOccurrences (map fst currentItems @ map fst comparisonItems);
          volumeE = fold (\<lambda>itemId v.
              case map_of comparisonItems itemId of
                None \<Rightarrow> v
              | Some cmp \<Rightarrow>
                  let qtyChange = (case map_of currentItems itemId of
                                     None \<Rightarrow> 0 | Some cur \<Rightarrow> qty cur) - qty cmp
                  in rnd (v + rnd (real_of_int qtyChange * avgPrice cmp))) allItemIds 0;
          priceE = fold (\<lambda>itemId p.
              case (map_of currentItems itemId, map_of comparisonItems itemId) of
                (Some cur, Some cmp) \<Rightarrow>
                  let priceChange = rnd (avgPrice cur - avgPrice cmp)
                  in rnd (p + rnd (real_of_int (qty cur) * priceChange))
              | _ \<Rightarrow> p) allItemIds 0;
          mixE = rnd (rnd (totalRevenueChange - volumeE) - priceE)
      in \<lparr>re_revenueChange = totalRevenueChange, re_volumeEffect = volumeE,
           re_priceEffect = priceE, re_mixEffect = mixE\<rparr>)"



section \<open>Example stores\<close>

text \<open>
  Concrete stores, built with the engines' own operations, on which the theorems
  below are evaluated.
\<close>

definition exampleTransactions :: "transaction_row list" where
  "exampleTransactions =
     [\<lparr>timestamp = 95 * msPerDay + 3600000, quantity = 2, price = 100, total_amount = 200,
       restaurant_id = 1, item_id = 7\<rparr>,
      \<lparr>timestamp = 103 * msPerDay + 7200000, quantity = 3, price = 100, total_amount = 300,
       restaurant_id = 1, item_id = 7\<rparr>]"

definition emptyStore :: database where
  "emptyStore = \<lparr>transactions = [], decisions = [], decision_outcomes = [],
                  insights = [], item_baselines = []\<rparr>"

definition exampleDecision :: "string \<Rightarrow> int \<Rightarrow> decision_row" where
  "exampleDecision etype eid =
     \<lparr>rowId = 0, decisionType = ''reprice'', entityId = eid, entityType = etype,
      recommendation = ''Increase price'', rationale = ''Low margin'',
      predictedImpact = [''revenue_change_pct'' \<mapsto> 10], status = pending,
      implementedAt = None, createdAt = 0\<rparr>"

definition exampleStore :: database where
  "exampleStore =
     (let db0 = emptyStore\<lparr>transactions := exampleTransactions\<rparr>;
          db1 = snd (logRecommendation db0 (90 * msPerDay) (exampleDecision ''item'' 7));
          db2 = snd (logRecommendation db1 (90 * msPerDay) (exampleDecision ''channel'' 3));
          db3 = updateDecisionStatus db2 (100 * msPerDay) 1 implemented;
          db4 = updateDecisionStatus db3 (100 * msPerDay) 2 implemented
      in db4)"

definition rejectedStore :: database where
  "rejectedStore =
     updateDecisionStatus
       (snd (logRecommendation emptyStore (1 * msPerDay) (exampleDecision ''item'' 7)))
       (5 * msPerDay) 1 rejected"

text \<open>
  A one-dish menu: a popular dish sold at 1000 that costs 400, ordered 100 times in
  one completed walk-in order. And a restaurant that already sells mostly through its
  own delivery channel.
\<close>

definition exampleMenu :: "MenuItem list" where
  "exampleMenu =
     [\<lparr>menuId = ''m1'', menuName = ''Thali'', costPrice = 400, sellingPrice = 1000,
       prepTime = Some 10\<rparr>]"

definition exampleOrders :: "Order list" where
  "exampleOrders =
     [\<lparr>restaurantId = 1, orderTimestamp = 200 * msPerDay + 12 * 3600000,
       channel = ''walk-in'', totalAmount = 100000, orderStatus = ''COMPLETED'',
       orderItems = [\<lparr>menuItemId = ''m1'', orderedQuantity = 100, priceAtTime = 1000\<rparr>]\<rparr>]"

definition exampleChannels :: "ChannelMetrics list" where
  "exampleChannels =
     [\<lparr>c_channel = ''delivery-direct'', c_totalOrders = 9, c_totalRevenue = 900,
       c_netMargin = 450, c_netMarginPercent = 50\<rparr>,
      \<lparr>c_channel = ''delivery-zomato'', c_totalOrders = 1, c_totalRevenue = 100,
       c_netMargin = 25, c_netMarginPercent = 25\<rparr>]"

text \<open>
  A store whose only sale lies inside the current week, and orders of two dishes over
  two consecutive weeks: 50 and then 70 portions of the first at a flat price of 100,
  50 portions of the second in both weeks.
\<close>

definition recentSaleStore :: database where
  "recentSaleStore =
     emptyStore\<lparr>transactions :=
       [\<lparr>timestamp = 103 * msPerDay + 7200000, quantity = 3, price = 100, total_amount = 300,
         restaurant_id = 1, item_id = 7\<rparr>]\<rparr>"

definition firstWeekOrder :: Order where
  "firstWeekOrder =
     \<lparr>restaurantId = 1, orderTimestamp = 95 * msPerDay, channel = ''walk-in'',
      totalAmount = 10000, orderStatus = ''COMPLETED'',
      orderItems = [\<lparr>menuItemId = ''m1'', orderedQuantity = 50, priceAtTime = 100\<rparr>,
                    \<lparr>menuItemId = ''m2'', orderedQuantity = 50, priceAtTime = 100\<rparr>]\<rparr>"

definition secondWeekOrder :: Order where
  "secondWeekOrder =
     \<lparr>restaurantId = 1, orderTimestamp = 102 * msPerDay, channel = ''walk-in'',
      totalAmount = 12000, orderStatus = ''COMPLETED'',
      orderItems = [\<lparr>menuItemId = ''m1'', orderedQuantity = 70, priceAtTime = 100\<rparr>,
                    \<lparr>menuItemId = ''m2'', orderedQuantity = 50, priceAtTime = 100\<rparr>]\<rparr>"

definition twoWeekStore :: prisma_store where
  "twoWeekStore =
     \<lparr>orders = [firstWeekOrder, secondWeekOrder],
      menuItems = [], insightTable = [], itemBaselineTable = []\<rparr>"

definition twoWeekFactors :: "CausalFactor list" where
  "twoWeekFactors =
     [\<lparr>factor = ''Volume (Customer Demand)'', contribution = 2000, contributionPct = Some 100,
        direction = ''positive''\<rparr>,
      \<lparr>factor = ''Price Changes'', contribution = 0, contributionPct = Some 0,
        direction = ''positive''\<rparr>,
      \<lparr>factor = ''Product Mix Shift'', contribution = 0, contributionPct = Some 0,
        direction = ''positive''\<rparr>]"

definition twoWeekInsight :: DecomposedInsight where
  "twoWeekInsight =
     \<lparr>causalFactors = twoWeekFactors, sampleSize = 2, confidenceScore = 1 / 100,
      insightRecommendation = None,
      metadata = \<lparr>currentValue = 12000, previousValue = 10000, absoluteChange = 2000,
                   percentChange = Some 20\<rparr>\<rparr>"

definition twoWeekRow :: Insight where
  "twoWeekRow =
     \<lparr>i_restaurantId = 1, i_type = ''revenue_decomposition'', severity = ''warning'',
      i_causalFactors = twoWeekFactors, i_sampleSize = 2, i_confidenceScore = 1 / 100,
      i_recommendation = None, expiresAt = 110 * msPerDay\<rparr>"

definition recentSaleEffects :: effects where
  "recentSaleEffects =
     \<lparr>volumeEffect = 0, volumeEffectPct = Some 0, priceEffect = 0, priceEffectPct = Some 0,
      mixEffect = 300, mixEffectPct = Some 100\<rparr>"

text \<open>
  Ten portions of one dish sold at 100 on each of the days 100 to 104 (Prisma store),
  and on each of the days 100 to 106 (SQLite store).
\<close>

definition dayOrder :: "int \<Rightarrow> Order" where
  "dayOrder d =
     \<lparr>restaurantId = 1, orderTimestamp = d * msPerDay + 43200000, channel = ''walk-in'',
      totalAmount = 1000, orderStatus = ''COMPLETED'',
      orderItems = [\<lparr>menuItemId = ''m1'', orderedQuantity = 10, priceAtTime = 100\<rparr>]\<rparr>"

definition fiveDayStore :: prisma_store where
  "fiveDayStore =
     \<lparr>orders = map dayOrder [100, 101, 102, 103, 104],
      menuItems = [\<lparr>menuId = ''m1'', menuName = ''Thali'', costPrice = 40, sellingPrice = 100,
                    prepTime = Some 10\<rparr>],
      insightTable = [], itemBaselineTable = []\<rparr>"

definition daySale :: "int \<Rightarrow> transaction_row" where
  "daySale d =
     \<lparr>timestamp = d * msPerDay + 43200000, quantity = 10, price = 100, total_amount = 1000,
      restaurant_id = 1, item_id = 7\<rparr>"

definition sevenDayStore :: database where
  "sevenDayStore = emptyStore\<lparr>transactions := map daySale [100, 101, 102, 103, 104, 105, 106]\<rparr>"

definition flatBaseline :: "int \<Rightarrow> ItemBaseline" where
  "flatBaseline t =
     \<lparr>b_menuItemId = ''m1'', periodStart = subDays t 30, periodEnd = t,
      avgDailyQuantity = 10, stdDevQuantity = 0, avgDailyRevenue = 1000, stdDevRevenue = 0,
      priceElasticity = None, seasonalityIndex = 1, b_sampleSize = 5,
      b_confidenceScore = 1 / 6, version = 1\<rparr>"

definition flatRow :: baseline_row where
  "flatRow =
     \<lparr>baseline_item_id = 7, baseline_restaurant_id = 1, baseline_period_start = 77,
      baseline_period_end = 107, avg_daily_quantity = Some 10, avg_daily_revenue = Some 1000,
      std_dev_quantity = Some 0\<rparr>"

definition lateSale :: transaction_row where
  "lateSale =
     \<lparr>timestamp = 107 * msPerDay + 43200000, quantity = 18, price = 100, total_amount = 1800,
      restaurant_id = 1, item_id = 7\<rparr>"

definition busyRow :: baseline_row where
  "busyRow =
     \<lparr>baseline_item_id = 7, baseline_restaurant_id = 1, baseline_period_start = 77,
      baseline_period_end = 107, avg_daily_quantity = Some 11, avg_daily_revenue = Some 1100,
      std_dev_quantity = Some (sqrt 7)\<rparr>"

definition sevenDayStoreLater :: database where
  "sevenDayStoreLater =
     (let db1 = snd (AnalyticsEngine_computeItemBaseline sevenDayStore
                       (107 * msPerDay + 3600000) 7 1 30)
      in db1\<lparr>transactions := transactions db1 @ [lateSale]\<rparr>)"










section \<open>Properties of the outcome evaluator's accuracy score\<close>

lemma showNat_digit: "n < 10 \<Longrightarrow> showNat n = [digit n]"
  by (simp add: showNat.simps)

lemma toFixed1_10: "toFixed1 10 = ''10.0''"
  by (simp add: toFixed1_def showNat.simps [of 10] showNat_digit digit_def)

lemma toFixed1_8: "toFixed1 8 = ''8.0''"
  by (simp add: toFixed1_def showNat_digit digit_def)

lemma calculateAccuracy_both:
  assumes "pm ''revenue_change_pct'' = Some p" and "am ''revenue_change_pct'' = Some a"
  shows "calculateAccuracy pm am =
           (if p = 0 \<and> a = 0 then 1 else max 0 (1 - \<bar>p - a\<bar> / max \<bar>p\<bar> \<bar>a\<bar>))"
  using assms by (simp add: calculateAccuracy_def Let_def)

text \<open>
  The division of \<open>calculateAccuracy\<close> sits behind the test for two zeros, so its
  divisor is never zero.
\<close>

lemma calculateAccuracy_divisor: "\<not> (p = 0 \<and> a = 0) \<Longrightarrow> max \<bar>p\<bar> \<bar>a\<bar> \<noteq> (0::real)"
  by (auto simp: max_def)

lemma relative_error_le_one: "max 0 (1 - \<bar>p - a\<bar> / max \<bar>p\<bar> \<bar>a\<bar>) \<le> (1::real)"
proof -
  have "0 \<le> \<bar>p - a\<bar> / max \<bar>p\<bar> \<bar>a\<bar>" by simp
  then show ?thesis by simp
qed

text \<open>
  Claim C9. Whenever the predicted or the actual impact map has no entry
  \<open>revenue_change_pct\<close>, \<open>calculateAccuracy\<close> returns the fixed score 0.5,
  whatever else the two maps hold.
\<close>

theorem calculateAccuracy_unknown:
  assumes "pm ''revenue_change_pct'' = None \<or> am ''revenue_change_pct'' = None"
  shows "calculateAccuracy pm am = 1 / 2"
  using assms by (auto simp: calculateAccuracy_def split: option.splits)

theorem calculateAccuracy_unknown_witness:
  "calculateAccuracy [''revenue_change_pct'' \<mapsto> 10] [''before_revenue'' \<mapsto> 8] = 1 / 2"
  using calculateAccuracy_unknown
    [of "[''revenue_change_pct'' \<mapsto> 10]" "[''before_revenue'' \<mapsto> 8]"]
  by simp

text \<open>
  Claim C4, as stated, ends with: predicted 10 and actual 8 give accuracy 0.8, which
  the evaluation text renders as "highly accurate". The score is 0.8, but the first
  tier of \<open>generateEvaluationText\<close> is \<open>accuracy > 0.8\<close>, strictly, so the text
  does not start with "Prediction was highly accurate".
\<close>

theorem accuracy_10_8_not_highly_accurate:
  "calculateAccuracy [''revenue_change_pct'' \<mapsto> 10] [''revenue_change_pct'' \<mapsto> 8] = 8 / 10
   \<and> \<not> prefix ''Prediction was highly accurate''
         (generateEvaluationText [''revenue_change_pct'' \<mapsto> 10] [''revenue_change_pct'' \<mapsto> 8]
            (calculateAccuracy [''revenue_change_pct'' \<mapsto> 10] [''revenue_change_pct'' \<mapsto> 8]))"
  by (simp add: calculateAccuracy_def generateEvaluationText_def)

text \<open>
  Claim C4, amended. For predicted and actual percent changes \<open>p\<close> and \<open>a\<close> (both
  maps holding \<open>revenue_change_pct\<close>), the accuracy is 1 when both are zero and
  \<open>max 0 (1 - |p - a| / max |p| |a|)\<close> otherwise; it always lies in \<open>[0, 1]\<close>;
  and \<open>p = 10\<close>, \<open>a = 8\<close> give 0.8, which is rendered as "moderately accurate",
  the "highly accurate" tier being strict.
\<close>

theorem calculateAccuracy_score:
  assumes "pm ''revenue_change_pct'' = Some p" and "am ''revenue_change_pct'' = Some a"
  shows "calculateAccuracy pm am =
           (if p = 0 \<and> a = 0 then 1 else max 0 (1 - \<bar>p - a\<bar> / max \<bar>p\<bar> \<bar>a\<bar>))
         \<and> 0 \<le> calculateAccuracy pm am
         \<and> calculateAccuracy pm am \<le> 1
         \<and> (p = 10 \<and> a = 8 \<longrightarrow>
              calculateAccuracy pm am = 8 / 10
              \<and> generateEvaluationText pm am (calculateAccuracy pm am) =
                  ''Prediction was moderately accurate. Expected 10.0% change, actual was 8.0%.'')"
proof -
  have eq: "calculateAccuracy pm am =
           (if p = 0 \<and> a = 0 then 1 else max 0 (1 - \<bar>p - a\<bar> / max \<bar>p\<bar> \<bar>a\<bar>))"
    using assms by (rule calculateAccuracy_both)
  have lo: "0 \<le> calculateAccuracy pm am"
    by (simp add: eq)
  have hi: "calculateAccuracy pm am \<le> 1"
    using relative_error_le_one [of p a] by (simp add: eq)
  have scen: "p = 10 \<and> a = 8 \<longrightarrow>
              calculateAccuracy pm am = 8 / 10
              \<and> generateEvaluationText pm am (calculateAccuracy pm am) =
                  ''Prediction was moderately accurate. Expected 10.0% change, actual was 8.0%.''"
  proof
    assume pa: "p = 10 \<and> a = 8"
    then have v: "calculateAccuracy pm am = 8 / 10"
      by (simp add: eq)
    show "calculateAccuracy pm am = 8 / 10
              \<and> generateEvaluationText pm am (calculateAccuracy pm am) =
                  ''Prediction was moderately accurate. Expected 10.0% change, actual was 8.0%.''"
      using pa assms by (simp add: v generateEvaluationText_def orZero_def toFixed1_10 toFixed1_8)
  qed
  from eq lo hi scen show ?thesis by blast
qed

theorem calculateAccuracy_score_witness:
  "calculateAccuracy [''revenue_change_pct'' \<mapsto> 10] [''revenue_change_pct'' \<mapsto> 8] = 8 / 10
   \<and> generateEvaluationText [''revenue_change_pct'' \<mapsto> 10] [''revenue_change_pct'' \<mapsto> 8]
        (calculateAccuracy [''revenue_change_pct'' \<mapsto> 10] [''revenue_change_pct'' \<mapsto> 8]) =
      ''Prediction was moderately accurate. Expected 10.0% change, actual was 8.0%.''"
  using calculateAccuracy_score
    [of "[''revenue_change_pct'' \<mapsto> 10]" 10 "[''revenue_change_pct'' \<mapsto> 8]" 8]
  by simp

section \<open>Properties of the decision tracker\<close>

lemma find_map_update:
  "find (\<lambda>r. rowId r = i) (map (\<lambda>r. if rowId r = did then g r else r) rs) =
     (if i = did then map_option g (find (\<lambda>r. rowId r = did) rs)
      else find (\<lambda>r. rowId r = i) rs)"
  if "\<And>r. rowId (g r) = rowId r"
  using that by (induction rs) auto

lemma exampleStore_decisions:
  "decisions exampleStore =
     [(exampleDecision ''item'' 7)\<lparr>rowId := 1, createdAt := 90 * msPerDay, status := implemented,
         implementedAt := Some (100 * msPerDay)\<rparr>,
      (exampleDecision ''channel'' 3)\<lparr>rowId := 2, createdAt := 90 * msPerDay, status := implemented,
         implementedAt := Some (100 * msPerDay)\<rparr>]"
  by (simp add: exampleStore_def emptyStore_def logRecommendation_def updateDecisionStatus_def
      exampleDecision_def Let_def)

lemma exampleStore_other:
  "transactions exampleStore = exampleTransactions" "decision_outcomes exampleStore = []"
  by (simp_all add: exampleStore_def emptyStore_def logRecommendation_def updateDecisionStatus_def
      Let_def)

lemma exampleStore_get1:
  "getDecisionById exampleStore 1 =
     Some ((exampleDecision ''item'' 7)\<lparr>rowId := 1, createdAt := 90 * msPerDay, status := implemented,
         implementedAt := Some (100 * msPerDay)\<rparr>)"
  by (simp add: getDecisionById_def exampleStore_decisions exampleDecision_def)

lemma exampleStore_get2:
  "getDecisionById exampleStore 2 =
     Some ((exampleDecision ''channel'' 3)\<lparr>rowId := 2, createdAt := 90 * msPerDay, status := implemented,
         implementedAt := Some (100 * msPerDay)\<rparr>)"
  by (simp add: getDecisionById_def exampleStore_decisions exampleDecision_def)

text \<open>
  Claim C2, as stated, says that a status change outside the legal set fails with
  InvalidTransition and leaves the stored status unchanged. \<open>updateDecisionStatus\<close>
  tests nothing: here a rejected decision is set back to pending.
\<close>

theorem updateDecisionStatus_resurrects_rejected:
  "map status (decisions rejectedStore) = [rejected]
   \<and> map status (decisions (updateDecisionStatus rejectedStore (9 * msPerDay) 1 pending)) = [pending]"
  by (simp add: rejectedStore_def emptyStore_def logRecommendation_def updateDecisionStatus_def
      exampleDecision_def Let_def)

text \<open>
  Claim C2, amended. \<open>updateDecisionStatus\<close> never fails and checks no transition:
  for every store, decision and requested status (pending, accepted, rejected or
  implemented; the type has no dismissed), the decision with that id afterwards has
  the requested status, with its implementation date set to now exactly when the
  request is implemented; every other decision and the outcome table are unchanged.
\<close>

theorem updateDecisionStatus_unconditional:
  "(\<forall>d. getDecisionById db did = Some d \<longrightarrow>
        getDecisionById (updateDecisionStatus db now did st) did =
          Some (d\<lparr>status := st,
                  implementedAt := (if st = implemented then Some now else implementedAt d)\<rparr>))
   \<and> (\<forall>i. i \<noteq> did \<longrightarrow>
        getDecisionById (updateDecisionStatus db now did st) i = getDecisionById db i)
   \<and> decision_outcomes (updateDecisionStatus db now did st) = decision_outcomes db"
  by (simp add: updateDecisionStatus_def getDecisionById_def find_map_update)

theorem updateDecisionStatus_unconditional_witness:
  "getDecisionById (updateDecisionStatus exampleStore (120 * msPerDay) 1 accepted) 1 =
     Some ((exampleDecision ''item'' 7)\<lparr>rowId := 1, createdAt := 90 * msPerDay, status := accepted,
         implementedAt := Some (100 * msPerDay)\<rparr>)
   \<and> getDecisionById (updateDecisionStatus exampleStore (120 * msPerDay) 1 accepted) 2 =
       getDecisionById exampleStore 2"
  using updateDecisionStatus_unconditional [of exampleStore 1 "120 * msPerDay" accepted]
  by (simp add: exampleStore_get1 exampleDecision_def)

section \<open>Properties of the outcome evaluator's gate\<close>

lemma div_day_less_7: "((d::int) div 86400000 < 7) = (d < 604800000)"
proof -
  have a: "d = 86400000 * (d div 86400000) + d mod 86400000" by simp
  have b: "0 \<le> d mod 86400000" by simp
  have c: "d mod 86400000 < 86400000" by simp
  from a b c show ?thesis by linarith
qed

lemma differenceInDays_lt_7: "differenceInDays now t < 7 \<longleftrightarrow> now - t < 7 * msPerDay"
proof (cases "0 \<le> now - t")
  case True
  then show ?thesis
    using div_day_less_7 [of "now - t"]
    by (simp add: differenceInDays_def msPerDay_def Let_def)
next
  case False
  then have "0 \<le> (t - now) div 86400000"
    by (simp add: pos_imp_zdiv_nonneg_iff)
  with False show ?thesis
    by (simp add: differenceInDays_def msPerDay_def Let_def)
qed

lemma evaluateDecision_not_implemented:
  "getDecisionById db did = Some d \<Longrightarrow> status d \<noteq> implemented \<Longrightarrow>
     evaluateDecision db now did = (None, db)"
  by (simp add: evaluateDecision_def)

lemma evaluateDecision_too_early:
  "getDecisionById db did = Some d \<Longrightarrow> implementedAt d = Some t \<Longrightarrow> now - t < 7 * msPerDay \<Longrightarrow>
     evaluateDecision db now did = (None, db)"
  by (simp add: evaluateDecision_def differenceInDays_lt_7)

lemma evaluateDecision_writes:
  assumes "decision_outcomes (snd (evaluateDecision db now did)) \<noteq> decision_outcomes db"
  shows "\<exists>d t. getDecisionById db did = Some d \<and> status d = implemented
            \<and> implementedAt d = Some t \<and> 7 * msPerDay \<le> now - t"
proof (cases "getDecisionById db did")
  case None
  with assms show ?thesis by (simp add: evaluateDecision_def)
next
  case (Some d)
  show ?thesis
  proof (cases "status d = implemented")
    case False
    with Some assms show ?thesis by (simp add: evaluateDecision_not_implemented)
  next
    case True
    show ?thesis
    proof (cases "implementedAt d")
      case None
      with Some True assms show ?thesis by (simp add: evaluateDecision_def)
    next
      case (Some t)
      have "\<not> now - t < 7 * msPerDay"
        using evaluateDecision_too_early [OF \<open>getDecisionById db did = Some d\<close> Some] assms
        by auto
      with \<open>getDecisionById db did = Some d\<close> True Some show ?thesis by auto
    qed
  qed
qed

lemma example_impact:
  "measureItemImpact exampleStore (110 * msPerDay) 7 (100 * msPerDay) =
     impactRecord 200 300"
  by (simp add: measureItemImpact_def itemRevenue_def exampleStore_other exampleTransactions_def
      isoDay_def subDays_def msPerDay_def sql_sum_def orZero_def Let_def)

lemma example_evaluate:
  "evaluateDecision exampleStore (110 * msPerDay) 1 =
     (Some \<lparr>predicted = [''revenue_change_pct'' \<mapsto> 10], actual = impactRecord 200 300,
            accuracy = 1 / 5,
            evaluation = ''Prediction was off. Expected 10.0% change, actual was 50.0%. Adjusting models.''\<rparr>,
      exampleStore\<lparr>decision_outcomes :=
        [\<lparr>decisionId = 1, actualImpact = impactRecord 200 300, evaluationDate = 110 * msPerDay,
          accuracyScore = 1 / 5, outcomeNotes = None\<rparr>]\<rparr>)"
proof -
  have days: "differenceInDays (110 * msPerDay) (100 * msPerDay) = 10"
    by (simp add: differenceInDays_def msPerDay_def)
  have pct: "impactRecord 200 300 ''revenue_change_pct'' = Some 50"
    by (simp add: impactRecord_def revenueChangePctOf_def)
  have score: "calculateAccuracy [''revenue_change_pct'' \<mapsto> 10] (impactRecord 200 300) = 1 / 5"
    by (simp add: calculateAccuracy_def pct)
  have fifty: "toFixed1 50 = ''50.0''"
    by (simp add: toFixed1_def showNat.simps [of 50] showNat_digit digit_def)
  have words: "generateEvaluationText [''revenue_change_pct'' \<mapsto> 10] (impactRecord 200 300) (1 / 5) =
      ''Prediction was off. Expected 10.0% change, actual was 50.0%. Adjusting models.''"
    by (simp add: generateEvaluationText_def pct orZero_def toFixed1_10 fifty)
  show ?thesis
    by (simp add: evaluateDecision_def exampleStore_get1 exampleDecision_def days example_impact
        score words logOutcome_def exampleStore_other Let_def)
qed

text \<open>
  Claim C3. A decision whose status is not implemented, or whose implementation date
  lies fewer than 7 days (of 86400000 ms) before now, makes \<open>evaluateDecision\<close>
  return null and leave the store, hence the outcome table, as it was. Conversely the
  outcome table changes only for a decision that is implemented and whose
  implementation date is at least 7 days old.
\<close>

theorem evaluateDecision_gating:
  "(\<forall>d. getDecisionById db did = Some d \<longrightarrow>
        (status d \<noteq> implemented \<or> (\<exists>t. implementedAt d = Some t \<and> now - t < 7 * msPerDay)) \<longrightarrow>
        evaluateDecision db now did = (None, db))
   \<and> (decision_outcomes (snd (evaluateDecision db now did)) \<noteq> decision_outcomes db \<longrightarrow>
        (\<exists>d t. getDecisionById db did = Some d \<and> status d = implemented
            \<and> implementedAt d = Some t \<and> 7 * msPerDay \<le> now - t))"
  using evaluateDecision_not_implemented evaluateDecision_too_early evaluateDecision_writes
  by blast

theorem evaluateDecision_gating_witness:
  "evaluateDecision exampleStore (103 * msPerDay) 1 = (None, exampleStore)
   \<and> (\<exists>d t. getDecisionById exampleStore 1 = Some d \<and> status d = implemented
          \<and> implementedAt d = Some t \<and> 7 * msPerDay \<le> 110 * msPerDay - t)"
proof -
  have early: "evaluateDecision exampleStore (103 * msPerDay) 1 = (None, exampleStore)"
    using evaluateDecision_gating [of exampleStore 1 "103 * msPerDay"]
    by (simp add: exampleStore_get1 exampleDecision_def msPerDay_def)
  have "decision_outcomes (snd (evaluateDecision exampleStore (110 * msPerDay) 1))
          \<noteq> decision_outcomes exampleStore"
    by (simp add: example_evaluate exampleStore_other)
  with evaluateDecision_gating [of exampleStore 1 "110 * msPerDay"] early
  show ?thesis by blast
qed

text \<open>
  Claim C10. A decision whose entity type is neither \<open>item\<close> nor \<open>restaurant\<close>
  makes \<open>evaluateDecision\<close> return null with the store untouched: no impact is
  measured and no outcome is recorded, also when the decision is implemented and its
  maturation window has passed.
\<close>

theorem evaluateDecision_other_entity:
  assumes "getDecisionById db did = Some d"
    and "entityType d \<noteq> ''item''" and "entityType d \<noteq> ''restaurant''"
  shows "evaluateDecision db now did = (None, db)"
  using assms by (simp add: evaluateDecision_def Let_def split: option.splits)

theorem evaluateDecision_other_entity_witness:
  "evaluateDecision exampleStore (110 * msPerDay) 2 = (None, exampleStore)"
  using evaluateDecision_other_entity [of exampleStore 2 _ "110 * msPerDay"]
  by (simp add: exampleStore_get2 exampleDecision_def)

section \<open>Properties of the menu classification and of the generated decisions\<close>

text \<open>
  Claim C6. The menu engineering route assigns every pair of a popularity and a
  margin to exactly one quadrant: each of the four categories is returned precisely on
  its own side of the two thresholds, which are mutually exclusive and cover every
  pair; a popularity of exactly 50 and a margin of exactly 680 count as high, so the
  boundary pair is a Star.
\<close>

theorem engineeringCategory_quadrants:
  "(engineeringCategory p m = Stars \<longleftrightarrow> p \<ge> 50 \<and> m \<ge> 680)
   \<and> (engineeringCategory p m = Plowhorses \<longleftrightarrow> p \<ge> 50 \<and> m < 680)
   \<and> (engineeringCategory p m = Puzzles \<longleftrightarrow> p < 50 \<and> m \<ge> 680)
   \<and> (engineeringCategory p m = Dogs \<longleftrightarrow> p < 50 \<and> m < 680)
   \<and> engineeringCategory 50 680 = Stars"
  by (auto simp: engineeringCategory_def)

lemma example_metrics:
  "getMenuEngineering exampleMenu exampleOrders =
     [\<lparr>m_id = ''m1'', m_name = ''Thali'', m_popularity = 50, m_margin = 600,
       m_revenue = 100000, m_orders = 100, m_price = 1000, m_cost = 400, m_prepTime = 10\<rparr>]"
  by (simp add: getMenuEngineering_def exampleMenu_def exampleOrders_def itemOrderItems_def
      sumQuantity_def sumRevenue_def lengthOr1_def popularityIndex_def Let_def)

lemma example_channel_metrics:
  "getChannelMetrics exampleMenu exampleOrders =
     [\<lparr>c_channel = ''walk-in'', c_totalOrders = 1, c_totalRevenue = 100000,
       c_netMargin = 60000, c_netMarginPercent = 60\<rparr>]"
  by (simp add: getChannelMetrics_def exampleMenu_def exampleOrders_def firstOccurrences_def
      menuItemCost_def Let_def)

lemma example_capacity_metrics:
  "getCapacityMetrics exampleOrders = [\<lparr>h_hour = 12, h_orders = 1, h_revenue = 100000\<rparr>]"
  by (simp add: getCapacityMetrics_def exampleOrders_def firstOccurrences_def getHours_def
      msPerDay_def Let_def)

lemma exampleOrders_length: "length exampleOrders = 1"
  by (simp add: exampleOrders_def)

text \<open>
  The channel decision has the same shape as the reprice decision: both round
  \<open>impact * lower\<close> and \<open>impact * upper\<close> without a test of the sign of the
  impact. A restaurant whose aggregator share is already below the target of 30% gets
  an inverted range as well.
\<close>

lemma channel_range_inverted:
  "channelDecision exampleChannels =
     [\<lparr>dec_id = ''DEC-CHANNEL-001'', action = ''Optimize'', item = ''Delivery Channel Mix'',
       category = ''Channel'', priority = ''high'', impactMin = Some (- 7),
       impactMax = Some (- 13), confidence = 75\<rparr>]"
  by (simp add: channelDecision_def exampleChannels_def js_div_def Math_round_def Let_def)

text \<open>
  Claim C5 says that every generated decision has \<open>impact.min \<le> impact.max\<close>. On a
  menu of one popular dish whose margin (600) is more than three times the proposed
  price increase (150), the projected impact of repricing is negative (-3750), and the
  route emits the Reprice decision with \<open>min = -3000\<close> above \<open>max = -4125\<close>.
\<close>

theorem reprice_range_inverted:
  "generateDecisions exampleMenu exampleOrders =
     [\<lparr>dec_id = ''DEC-PRICE-m1'', action = ''Reprice'', item = ''Thali'', category = ''Menu'',
       priority = ''medium'', impactMin = Some (- 3000), impactMax = Some (- 4125),
       confidence = 70\<rparr>]
   \<and> \<not> ((- 3000 :: int) \<le> - 4125)"
  by (simp add: generateDecisions_def example_metrics example_channel_metrics
      example_capacity_metrics menuDecisions_def promoteDecision_def repriceDecision_def
      removeDecision_def channelDecision_def capacityDecision_def Math_round_def
      exampleOrders_length Let_def)

section \<open>Properties of the revenue decomposition\<close>

text \<open>
  In the exact arithmetic of the sections on the two engines the three effects add up
  to the revenue change, also after the factors are sorted: the identity is one of
  algebra. Whether it survives the rounding of the program is settled further below.
\<close>

lemma InsightEngine_effects_sum:
  "volumeEffect (decomposition (fst (InsightEngine_analyzeRevenueChange db now rid cp pp)))
   + priceEffect (decomposition (fst (InsightEngine_analyzeRevenueChange db now rid cp pp)))
   + mixEffect (decomposition (fst (InsightEngine_analyzeRevenueChange db now rid cp pp)))
   = revenueChange (fst (InsightEngine_analyzeRevenueChange db now rid cp pp))"
  by (simp add: InsightEngine_analyzeRevenueChange_def Let_def)

lemma decomposeRevenueChange_sum:
  "sum_list (map contribution (decomposeRevenueChange currentOrders comparisonOrders t)) = t"
  by (simp add: decomposeRevenueChange_def Let_def)

lemma sum_list_insort_key:
  fixes g :: "'a \<Rightarrow> real"
  shows "sum_list (map g (insort_key k x xs)) = g x + sum_list (map g xs)"
  by (induction xs) auto

lemma sum_list_sort_key:
  fixes g :: "'a \<Rightarrow> real"
  shows "sum_list (map g (sort_key k xs)) = sum_list (map g xs)"
  by (induction xs) (auto simp: sum_list_insort_key)

lemma Explainable_contributions_sum:
  assumes "ExplainableInsightEngine_analyzeRevenueChange store now rid days = (Some insight, store')"
  shows "sum_list (map contribution (causalFactors insight)) = absoluteChange (metadata insight)"
proof -
  let ?cur = "currentPeriodOrders store now rid days"
  let ?cmp = "comparisonPeriodOrders store now rid days"
  let ?t = "sum_list (map totalAmount ?cur) - sum_list (map totalAmount ?cmp)"
  from assms have f: "causalFactors insight =
      sort_key (\<lambda>f. - \<bar>contribution f\<bar>) (decomposeRevenueChange ?cur ?cmp ?t)"
    and a: "absoluteChange (metadata insight) = ?t"
    by (auto simp: ExplainableInsightEngine_analyzeRevenueChange_def Let_def split: if_splits)
  show ?thesis
    unfolding f a by (simp only: sum_list_sort_key decomposeRevenueChange_sum)
qed

subsection \<open>The two example analyses, evaluated\<close>

lemma twoWeek_current:
  "currentPeriodOrders twoWeekStore (103 * msPerDay) 1 7 = [secondWeekOrder]"
  by (simp add: currentPeriodOrders_def twoWeekStore_def firstWeekOrder_def secondWeekOrder_def
      subDays_def msPerDay_def Let_def)

lemma twoWeek_comparison:
  "comparisonPeriodOrders twoWeekStore (103 * msPerDay) 1 7 = [firstWeekOrder]"
  by (simp add: comparisonPeriodOrders_def twoWeekStore_def firstWeekOrder_def
      secondWeekOrder_def subDays_def msPerDay_def Let_def)

lemma twoWeek_aggregate_current:
  "aggregateItemData [secondWeekOrder] =
     [(''m1'', \<lparr>qty = 70, revenue = 7000, avgPrice = 100\<rparr>),
      (''m2'', \<lparr>qty = 50, revenue = 5000, avgPrice = 100\<rparr>)]"
  by (simp add: aggregateItemData_def secondWeekOrder_def Let_def)

lemma twoWeek_aggregate_comparison:
  "aggregateItemData [firstWeekOrder] =
     [(''m1'', \<lparr>qty = 50, revenue = 5000, avgPrice = 100\<rparr>),
      (''m2'', \<lparr>qty = 50, revenue = 5000, avgPrice = 100\<rparr>)]"
  by (simp add: aggregateItemData_def firstWeekOrder_def Let_def)

lemma twoWeek_decompose:
  "decomposeRevenueChange [secondWeekOrder] [firstWeekOrder] 2000 = twoWeekFactors"
  by (simp add: decomposeRevenueChange_def twoWeek_aggregate_current twoWeek_aggregate_comparison
      firstOccurrences_def percentOf_def js_div_def twoWeekFactors_def Let_def)

lemma twoWeek_sorted: "sort_key (\<lambda>f. - \<bar>contribution f\<bar>) twoWeekFactors = twoWeekFactors"
  by (simp add: twoWeekFactors_def)

lemma twoWeek_totals:
  "totalAmount secondWeekOrder = 12000" "totalAmount firstWeekOrder = 10000"
  by (simp_all add: firstWeekOrder_def secondWeekOrder_def)

lemma twoWeek_recommendation: "generateRecommendation twoWeekFactors (Some 20) = None"
  by (simp add: generateRecommendation_def js_less_def Let_def)

lemma twoWeek_analysis:
  "ExplainableInsightEngine_analyzeRevenueChange twoWeekStore (103 * msPerDay) 1 7 =
     (Some twoWeekInsight, twoWeekStore\<lparr>insightTable := [twoWeekRow]\<rparr>)"
proof -
  have tab: "insightTable twoWeekStore = []"
    by (simp add: twoWeekStore_def)
  show ?thesis
    by (simp add: ExplainableInsightEngine_analyzeRevenueChange_def twoWeek_current
        twoWeek_comparison twoWeek_totals twoWeek_decompose twoWeek_sorted
        twoWeek_recommendation percentOf_def js_div_def
        calculateConfidenceScore_def js_less_def twoWeekInsight_def twoWeekRow_def
        ExplainableInsightEngine_storeInsight_def orZero_def subDays_def tab Let_def)
qed

lemma twoWeek_early_comparison:
  "comparisonPeriodOrders twoWeekStore (96 * msPerDay) 1 7 = []"
  by (simp add: comparisonPeriodOrders_def twoWeekStore_def firstWeekOrder_def
      secondWeekOrder_def subDays_def msPerDay_def Let_def)

lemma recentSale_current:
  "periodQuery recentSaleStore 1 98 105 =
     [\<lparr>r_item_id = 7, r_qty = 3, r_avg_price = 100, r_revenue = 300\<rparr>]"
  by (simp add: periodQuery_def recentSaleStore_def emptyStore_def isoDay_def msPerDay_def Let_def)

lemma recentSale_comparison: "periodQuery recentSaleStore 1 91 98 = []"
  by (simp add: periodQuery_def recentSaleStore_def emptyStore_def isoDay_def msPerDay_def Let_def)

lemma recentSale_days:
  "isoDay (105 * msPerDay) = 105" "isoDay (subDays (105 * msPerDay) 7) = 98"
  "isoDay (subDays (subDays (105 * msPerDay) 7) 7) = 91"
  by (simp_all add: isoDay_def subDays_def msPerDay_def)

lemma recentSale_analysis:
  "InsightEngine_analyzeRevenueChange recentSaleStore (105 * msPerDay) 1 7 7 =
     (\<lparr>revenueChange = 300, revenueChangePct = Some 0, decomposition = recentSaleEffects,
       explanation = ''Revenue increased primarily because product mix changed.''\<rparr>,
      recentSaleStore\<lparr>insights :=
        [\<lparr>insight_type = ''revenue_decomposition'', insight_entity_id = 1,
          insight_entity_type = ''restaurant'', title = ''Revenue Change Analysis'',
          insight_explanation = ''Revenue increased primarily because product mix changed.'',
          causal_factors = recentSaleEffects\<rparr>]\<rparr>)"
proof -
  have tab: "insights recentSaleStore = []"
    by (simp add: recentSaleStore_def emptyStore_def)
  show ?thesis
    by (simp add: InsightEngine_analyzeRevenueChange_def recentSale_days recentSale_current
        recentSale_comparison mapGet_def percentOf_def js_div_def generateExplanation_def
        storeInsight_def recentSaleEffects_def tab Let_def)
qed

subsection \<open>Rounding to double precision\<close>

































subsection \<open>The decomposition in double arithmetic\<close>





text \<open>
  In exact arithmetic the rounded models are the decompositions of the two engines
  as the sections above define them.
\<close>

lemma fold_add_sum_list:
  fixes g :: "'a \<Rightarrow> real"
  assumes "\<And>x p. step x p = p + g x"
  shows "fold step xs a = a + sum_list (map g xs)"
  by (induction xs arbitrary: a) (simp_all add: assms)

lemma InsightEngine_decomposition_exact:
  assumes "currentData = periodQuery db rid (isoDay (subDays now cp)) (isoDay now)"
    and "comparisonData = periodQuery db rid (isoDay (subDays (subDays now cp) pp))
                            (isoDay (subDays now cp))"
    and "r = fst (InsightEngine_analyzeRevenueChange db now rid cp pp)"
  shows "InsightEngine_decomposition (\<lambda>x. x) currentData comparisonData =
           \<lparr>re_revenueChange = revenueChange r,
            re_volumeEffect = volumeEffect (decomposition r),
            re_priceEffect = priceEffect (decomposition r),
            re_mixEffect = mixEffect (decomposition r)\<rparr>"
proof -
  have tot: "fold (\<lambda>item s. s + r_revenue item) xs 0 = sum_list (map r_revenue xs)"
    for xs :: "period_row list"
    using fold_add_sum_list [of "\<lambda>item s. s + r_revenue item" r_revenue xs 0] by simp
  have vol: "fold (\<lambda>cmp v. v + real_of_int
                 ((case mapGet currentData (r_item_id cmp) of
                     None \<Rightarrow> 0 | Some current \<Rightarrow> r_qty current) - r_qty cmp)
                 * r_avg_price cmp) xs 0
             = sum_list (map (\<lambda>cmp. real_of_int
                 ((case mapGet currentData (r_item_id cmp) of
                     None \<Rightarrow> 0 | Some current \<Rightarrow> r_qty current) - r_qty cmp)
                 * r_avg_price cmp) xs)" for xs
    by (subst fold_add_sum_list [where g = "\<lambda>cmp. real_of_int
                 ((case mapGet currentData (r_item_id cmp) of
                     None \<Rightarrow> 0 | Some current \<Rightarrow> r_qty current) - r_qty cmp)
                 * r_avg_price cmp"]) simp_all
  have pri: "fold (\<lambda>current p.
                 case mapGet comparisonData (r_item_id current) of
                   None \<Rightarrow> p
                 | Some cmp \<Rightarrow> p + (r_avg_price current - r_avg_price cmp)
                                    * real_of_int (r_qty current)) xs 0
             = sum_list (map (\<lambda>current.
                 case mapGet comparisonData (r_item_id current) of
                   None \<Rightarrow> 0
                 | Some cmp \<Rightarrow> (r_avg_price current - r_avg_price cmp)
                                * real_of_int (r_qty current)) xs)" for xs
    by (subst fold_add_sum_list [where g = "\<lambda>current.
                 case mapGet comparisonData (r_item_id current) of
                   None \<Rightarrow> 0
                 | Some cmp \<Rightarrow> (r_avg_price current - r_avg_price cmp)
                                * real_of_int (r_qty current)"])
      (simp_all split: option.splits)
  have "InsightEngine_decomposition (\<lambda>x. x) currentData comparisonData =
          \<lparr>re_revenueChange =
             sum_list (map r_revenue currentData) - sum_list (map r_revenue comparisonData),
           re_volumeEffect = sum_list (map (\<lambda>cmp. real_of_int
                 ((case mapGet currentData (r_item_id cmp) of
                     None \<Rightarrow> 0 | Some current \<Rightarrow> r_qty current) - r_qty cmp)
                 * r_avg_price cmp) comparisonData),
           re_priceEffect = sum_list (map (\<lambda>current.
                 case mapGet comparisonData (r_item_id current) of
                   None \<Rightarrow> 0
                 | Some cmp \<Rightarrow> (r_avg_price current - r_avg_price cmp)
                                * real_of_int (r_qty current)) currentData),
           re_mixEffect =
             sum_list (map r_revenue currentData) - sum_list (map r_revenue comparisonData)
             - sum_list (map (\<lambda>cmp. real_of_int
                 ((case mapGet currentData (r_item_id cmp) of
                     None \<Rightarrow> 0 | Some current \<Rightarrow> r_qty current) - r_qty cmp)
                 * r_avg_price cmp) comparisonData)
             - sum_list (map (\<lambda>current.
                 case mapGet comparisonData (r_item_id current) of
                   None \<Rightarrow> 0
                 | Some cmp \<Rightarrow> (r_avg_price current - r_avg_price cmp)
                                * real_of_int (r_qty current)) currentData)\<rparr>"
    unfolding InsightEngine_decomposition_def Let_def tot vol pri ..
  then show ?thesis
    unfolding assms InsightEngine_analyzeRevenueChange_def Let_def by simp
qed

lemma decomposeRevenueChange_rounded_exact:
  "map contribution (decomposeRevenueChange currentOrders comparisonOrders t) =
     (let ev = decomposeRevenueChange_rounded (\<lambda>x. x) (aggregateItemData currentOrders)
                 (aggregateItemData comparisonOrders) t
      in [re_volumeEffect ev, re_priceEffect ev, re_mixEffect ev])"
proof -
  let ?cur = "aggregateItemData currentOrders"
  let ?cmp = "aggregateItemData comparisonOrders"
  have vol: "fold (\<lambda>itemId v.
                 case map_of ?cmp itemId of
                   None \<Rightarrow> v
                 | Some cmp \<Rightarrow> v + real_of_int
                     ((case map_of ?cur itemId of None \<Rightarrow> 0 | Some cur \<Rightarrow> qty cur) - qty cmp)
                     * avgPrice cmp) xs 0
             = sum_list (map (\<lambda>itemId.
                 case map_of ?cmp itemId of
                   None \<Rightarrow> 0
                 | Some cmp \<Rightarrow> real_of_int
                     ((case map_of ?cur itemId of None \<Rightarrow> 0 | Some cur \<Rightarrow> qty cur) - qty cmp)
                     * avgPrice cmp) xs)" for xs
    by (subst fold_add_sum_list [where g = "\<lambda>itemId.
                 case map_of ?cmp itemId of
                   None \<Rightarrow> 0
                 | Some cmp \<Rightarrow> real_of_int
                     ((case map_of ?cur itemId of None \<Rightarrow> 0 | Some cur \<Rightarrow> qty cur) - qty cmp)
                     * avgPrice cmp"])
      (simp_all split: option.splits)
  have pri: "fold (\<lambda>itemId p.
                 case (map_of ?cur itemId, map_of ?cmp itemId) of
                   (Some cur, Some cmp) \<Rightarrow>
                     p + real_of_int (qty cur) * (avgPrice cur - avgPrice cmp)
                 | _ \<Rightarrow> p) xs 0
             = sum_list (map (\<lambda>itemId.
                 case (map_of ?cur itemId, map_of ?cmp itemId) of
                   (Some cur, Some cmp) \<Rightarrow> real_of_int (qty cur) * (avgPrice cur - avgPrice cmp)
                 | _ \<Rightarrow> 0) xs)" for xs
    by (subst fold_add_sum_list [where g = "\<lambda>itemId.
                 case (map_of ?cur itemId, map_of ?cmp itemId) of
                   (Some cur, Some cmp) \<Rightarrow> real_of_int (qty cur) * (avgPrice cur - avgPrice cmp)
                 | _ \<Rightarrow> 0"])
      (simp_all split: option.splits)
  show ?thesis
    unfolding decomposeRevenueChange_def decomposeRevenueChange_rounded_def Let_def vol pri
    by simp
qed



subsection \<open>Additivity\<close>




subsection \<open>Periods without orders\<close>

lemma percentOf_defined: "b \<noteq> 0 \<Longrightarrow> \<exists>y. percentOf a b = Some y"
  by (simp add: percentOf_def js_div_def)

lemma decomposeRevenueChange_defined:
  "f \<in> set (decomposeRevenueChange currentOrders comparisonOrders t) \<Longrightarrow> contributionPct f \<noteq> None"
  by (auto simp: decomposeRevenueChange_def Let_def percentOf_defined)

lemma Explainable_insufficient:
  assumes "currentPeriodOrders store now rid days = [] \<or> comparisonPeriodOrders store now rid days = []"
  shows "ExplainableInsightEngine_analyzeRevenueChange store now rid days = (None, store)"
  using assms by (auto simp: ExplainableInsightEngine_analyzeRevenueChange_def Let_def)

lemma Explainable_finite:
  assumes "ExplainableInsightEngine_analyzeRevenueChange store now rid days = (Some insight, store')"
  shows "(\<forall>f \<in> set (causalFactors insight). contributionPct f \<noteq> None)
         \<and> percentChange (metadata insight) \<noteq> None
         \<and> (\<exists>row. insightTable store' = insightTable store @ [row]
                \<and> i_causalFactors row = causalFactors insight
                \<and> i_confidenceScore row = confidenceScore insight)"
proof -
  let ?cur = "currentPeriodOrders store now rid days"
  let ?cmp = "comparisonPeriodOrders store now rid days"
  let ?t = "sum_list (map totalAmount ?cur) - sum_list (map totalAmount ?cmp)"
  from assms have f: "causalFactors insight =
      sort_key (\<lambda>f. - \<bar>contribution f\<bar>) (decomposeRevenueChange ?cur ?cmp ?t)"
    and p: "percentChange (metadata insight) =
      (if sum_list (map totalAmount ?cmp) \<noteq> 0 then percentOf ?t (sum_list (map totalAmount ?cmp))
       else Some 0)"
    and s: "store' = ExplainableInsightEngine_storeInsight store now rid insight"
    by (auto simp: ExplainableInsightEngine_analyzeRevenueChange_def Let_def split: if_splits)
  have 1: "\<forall>f \<in> set (causalFactors insight). contributionPct f \<noteq> None"
    unfolding f using decomposeRevenueChange_defined by auto
  have 2: "percentChange (metadata insight) \<noteq> None"
    unfolding p by (simp add: percentOf_defined)
  have 3: "\<exists>row. insightTable store' = insightTable store @ [row]
                \<and> i_causalFactors row = causalFactors insight
                \<and> i_confidenceScore row = confidenceScore insight"
    unfolding s by (simp add: ExplainableInsightEngine_storeInsight_def Let_def)
  from 1 2 3 show ?thesis by blast
qed

lemma InsightEngine_finite:
  "revenueChangePct (fst (InsightEngine_analyzeRevenueChange db now rid cp pp)) \<noteq> None
   \<and> volumeEffectPct (decomposition (fst (InsightEngine_analyzeRevenueChange db now rid cp pp))) \<noteq> None
   \<and> priceEffectPct (decomposition (fst (InsightEngine_analyzeRevenueChange db now rid cp pp))) \<noteq> None
   \<and> mixEffectPct (decomposition (fst (InsightEngine_analyzeRevenueChange db now rid cp pp))) \<noteq> None
   \<and> (\<exists>row. insights (snd (InsightEngine_analyzeRevenueChange db now rid cp pp)) = insights db @ [row]
          \<and> causal_factors row = decomposition (fst (InsightEngine_analyzeRevenueChange db now rid cp pp)))"
  by (simp add: InsightEngine_analyzeRevenueChange_def storeInsight_def Let_def percentOf_defined)

text \<open>
  Claim C8, as stated, says that \<open>analyzeRevenueChange\<close> returns InsufficientData
  rather than a decomposition when one of the two periods has no orders.
  \<open>InsightEngine.analyzeRevenueChange\<close> has no such result: with one sale in the
  current week (days 98 to 105) and none in the comparison week (days 91 to 98) it
  returns a decomposition, in which the whole change of 300 is mix effect, and stores
  it as an insight.
\<close>

theorem InsightEngine_decomposes_without_comparison_orders:
  "periodQuery recentSaleStore 1 91 98 = []
   \<and> InsightEngine_analyzeRevenueChange recentSaleStore (105 * msPerDay) 1 7 7 =
     (\<lparr>revenueChange = 300, revenueChangePct = Some 0, decomposition = recentSaleEffects,
       explanation = ''Revenue increased primarily because product mix changed.''\<rparr>,
      recentSaleStore\<lparr>insights :=
        [\<lparr>insight_type = ''revenue_decomposition'', insight_entity_id = 1,
          insight_entity_type = ''restaurant'', title = ''Revenue Change Analysis'',
          insight_explanation = ''Revenue increased primarily because product mix changed.'',
          causal_factors = recentSaleEffects\<rparr>]\<rparr>)"
  using recentSale_comparison recentSale_analysis by simp

text \<open>
  Claim C8, amended. When the current or the comparison period has no orders,
  \<open>ExplainableInsightEngine.analyzeRevenueChange\<close> returns null (insufficient data)
  and leaves the store as it was; \<open>InsightEngine.analyzeRevenueChange\<close> has no
  insufficient-data result and always returns and stores a decomposition. In both
  engines no returned or stored number is \<open>NaN\<close> or an infinity: every percentage
  (the only quotients) is a finite number, and the row that is stored holds the numbers
  that are returned.
\<close>

theorem revenue_analysis_without_orders:
  "(currentPeriodOrders store now rid days = [] \<or> comparisonPeriodOrders store now rid days = []
      \<longrightarrow> ExplainableInsightEngine_analyzeRevenueChange store now rid days = (None, store))
   \<and> (\<forall>insight store'.
         ExplainableInsightEngine_analyzeRevenueChange store now rid days = (Some insight, store')
         \<longrightarrow> (\<forall>f \<in> set (causalFactors insight). contributionPct f \<noteq> None)
             \<and> percentChange (metadata insight) \<noteq> None
             \<and> (\<exists>row. insightTable store' = insightTable store @ [row]
                    \<and> i_causalFactors row = causalFactors insight
                    \<and> i_confidenceScore row = confidenceScore insight))
   \<and> revenueChangePct (fst (InsightEngine_analyzeRevenueChange db now' rid' cp pp)) \<noteq> None
   \<and> volumeEffectPct (decomposition (fst (InsightEngine_analyzeRevenueChange db now' rid' cp pp))) \<noteq> None
   \<and> priceEffectPct (decomposition (fst (InsightEngine_analyzeRevenueChange db now' rid' cp pp))) \<noteq> None
   \<and> mixEffectPct (decomposition (fst (InsightEngine_analyzeRevenueChange db now' rid' cp pp))) \<noteq> None
   \<and> (\<exists>row. insights (snd (InsightEngine_analyzeRevenueChange db now' rid' cp pp)) = insights db @ [row]
          \<and> causal_factors row = decomposition (fst (InsightEngine_analyzeRevenueChange db now' rid' cp pp)))"
  using Explainable_insufficient [of store now rid days] Explainable_finite [of store now rid days]
    InsightEngine_finite [of db now' rid' cp pp]
  by blast

theorem revenue_analysis_without_orders_witness:
  "ExplainableInsightEngine_analyzeRevenueChange twoWeekStore (96 * msPerDay) 1 7 = (None, twoWeekStore)
   \<and> percentChange (metadata twoWeekInsight) \<noteq> None
   \<and> contributionPct (hd (causalFactors twoWeekInsight)) \<noteq> None"
proof -
  have "ExplainableInsightEngine_analyzeRevenueChange twoWeekStore (96 * msPerDay) 1 7 = (None, twoWeekStore)"
    using revenue_analysis_without_orders [of twoWeekStore "96 * msPerDay" 1 7]
      twoWeek_early_comparison
    by blast
  moreover have "(\<forall>f \<in> set (causalFactors twoWeekInsight). contributionPct f \<noteq> None)
      \<and> percentChange (metadata twoWeekInsight) \<noteq> None"
    using revenue_analysis_without_orders [of twoWeekStore "103 * msPerDay" 1 7]
      twoWeek_analysis
    by blast
  moreover have "hd (causalFactors twoWeekInsight) \<in> set (causalFactors twoWeekInsight)"
    by (simp add: twoWeekInsight_def twoWeekFactors_def)
  ultimately show ?thesis by blast
qed

section \<open>Properties of the baseline engines\<close>

lemma fiveDay_daily:
  "105 * msPerDay \<le> t \<Longrightarrow> t < 106 * msPerDay \<Longrightarrow> itemBaselineTable store = bs \<Longrightarrow> orders store = orders fiveDayStore \<Longrightarrow>
   dailyQuery store ''m1'' (subDays t 30) =
     map (\<lambda>d. \<lparr>sale_date = d, daily_qty = 10, daily_rev = 1000, avg_price = 100\<rparr>)
       [100, 101, 102, 103, 104]"
  by (simp add: dailyQuery_def fiveDayStore_def dayOrder_def subDays_def isoDay_def msPerDay_def
      sumQuantity_def Let_def)

lemma flat_stats:
  "mean [10, 10, 10, 10, 10] = 10" "stdDev [10, 10, 10, 10, 10] = 0"
  "mean [1000, 1000, 1000, 1000, 1000] = 1000" "stdDev [1000, 1000, 1000, 1000, 1000] = 0"
  by (simp_all add: mean_def stdDev_def Let_def)

lemma flat_elasticity:
  "estimatePriceElasticity
     [\<lparr>cd_qty = 10, cd_rev = 1000, cd_price = 100\<rparr>,
      \<lparr>cd_qty = 10, cd_rev = 1000, cd_price = 100\<rparr>,
      \<lparr>cd_qty = 10, cd_rev = 1000, cd_price = 100\<rparr>,
      \<lparr>cd_qty = 10, cd_rev = 1000, cd_price = 100\<rparr>,
      \<lparr>cd_qty = 10, cd_rev = 1000, cd_price = 100\<rparr>] = None"
  by (simp add: estimatePriceElasticity_def Let_def)

lemma five_Suc: "Suc (Suc (Suc (Suc (Suc 0)))) = 5"
  by simp

lemma fiveDay_compute:
  assumes "105 * msPerDay \<le> t" "t < 106 * msPerDay" "orders store = orders fiveDayStore"
    and "\<forall>b \<in> set (itemBaselineTable store). periodEnd b \<noteq> t"
  shows "ComputationEngine_computeItemBaseline store t ''m1'' 30 =
           store\<lparr>itemBaselineTable := itemBaselineTable store @ [flatBaseline t]\<rparr>"
proof -
  have none: "filter (\<lambda>b. b_menuItemId b = ''m1'' \<and> periodEnd b = t) (itemBaselineTable store) = []"
    using assms(4) by (auto simp: filter_empty_conv)
  show ?thesis
    using fiveDay_daily [OF assms(1,2) refl assms(3)]
    by (simp add: ComputationEngine_computeItemBaseline_def Let_def flat_stats flat_elasticity
        estimateSeasonality_def findLatestBaseline_def none flatBaseline_def five_Suc)
qed

lemma fiveDay_twice:
  "itemBaselineTable
     (ComputationEngine_computeItemBaseline
        (ComputationEngine_computeItemBaseline fiveDayStore (105 * msPerDay + 3600000) ''m1'' 30)
        (105 * msPerDay + 7200000) ''m1'' 30) =
     [flatBaseline (105 * msPerDay + 3600000), flatBaseline (105 * msPerDay + 7200000)]"
proof -
  have tab: "itemBaselineTable fiveDayStore = []"
    by (simp add: fiveDayStore_def)
  have first: "ComputationEngine_computeItemBaseline fiveDayStore (105 * msPerDay + 3600000) ''m1'' 30 =
      fiveDayStore\<lparr>itemBaselineTable := [flatBaseline (105 * msPerDay + 3600000)]\<rparr>"
    using fiveDay_compute [of "105 * msPerDay + 3600000" fiveDayStore]
    by (simp add: tab msPerDay_def)
  have second: "ComputationEngine_computeItemBaseline
        (fiveDayStore\<lparr>itemBaselineTable := [flatBaseline (105 * msPerDay + 3600000)]\<rparr>)
        (105 * msPerDay + 7200000) ''m1'' 30 =
      fiveDayStore\<lparr>itemBaselineTable :=
        [flatBaseline (105 * msPerDay + 3600000), flatBaseline (105 * msPerDay + 7200000)]\<rparr>"
    using fiveDay_compute [of "105 * msPerDay + 7200000"
        "fiveDayStore\<lparr>itemBaselineTable := [flatBaseline (105 * msPerDay + 3600000)]\<rparr>"]
    by (simp add: flatBaseline_def msPerDay_def)
  show ?thesis
    by (simp add: first second)
qed

lemma sevenDay_daily:
  "dailyData sevenDayStore 7 1 77 107 =
     map (\<lambda>d. \<lparr>d_sale_date = d, d_daily_qty = 10, d_daily_rev = 1000\<rparr>)
       [100, 101, 102, 103, 104, 105, 106]"
  by (simp add: dailyData_def sevenDayStore_def emptyStore_def daySale_def isoDay_def msPerDay_def
      Let_def)

lemma sevenDay_first:
  "AnalyticsEngine_computeItemBaseline sevenDayStore (107 * msPerDay + 3600000) 7 1 30 =
     (Some flatRow, sevenDayStore\<lparr>item_baselines := [flatRow]\<rparr>)"
proof -
  have days: "isoDay (subDays (107 * msPerDay + 3600000) 30) = 77"
    "isoDay (107 * msPerDay + 3600000) = 107"
    by (simp_all add: isoDay_def subDays_def msPerDay_def)
  have tab: "item_baselines sevenDayStore = []"
    by (simp add: sevenDayStore_def emptyStore_def)
  show ?thesis
    by (simp add: AnalyticsEngine_computeItemBaseline_def days sevenDay_daily
        AnalyticsEngine_mean_def standardDeviation_def js_div_def insertOrReplaceBaseline_def
        flatRow_def tab Let_def)
qed

lemma sevenDayStoreLater_tables:
  "transactions sevenDayStoreLater = map daySale [100, 101, 102, 103, 104, 105, 106] @ [lateSale]"
  "item_baselines sevenDayStoreLater = [flatRow]"
proof -
  have t: "transactions sevenDayStore = map daySale [100, 101, 102, 103, 104, 105, 106]"
    by (simp add: sevenDayStore_def emptyStore_def)
  show "transactions sevenDayStoreLater = map daySale [100, 101, 102, 103, 104, 105, 106] @ [lateSale]"
    by (simp add: sevenDayStoreLater_def sevenDay_first t Let_def)
  show "item_baselines sevenDayStoreLater = [flatRow]"
    by (simp add: sevenDayStoreLater_def sevenDay_first Let_def)
qed

lemma sevenDay_late_daily:
  "dailyData sevenDayStoreLater 7 1 77 107 =
     map (\<lambda>d. \<lparr>d_sale_date = d, d_daily_qty = 10, d_daily_rev = 1000\<rparr>)
       [100, 101, 102, 103, 104, 105, 106]
     @ [\<lparr>d_sale_date = 107, d_daily_qty = 18, d_daily_rev = 1800\<rparr>]"
  by (simp add: dailyData_def sevenDayStoreLater_tables daySale_def lateSale_def isoDay_def
      msPerDay_def Let_def)

lemma flatRow_key: "baseline_item_id flatRow = 7" "baseline_period_end flatRow = 107"
  by (simp_all add: flatRow_def)

lemma sevenDay_second:
  "AnalyticsEngine_computeItemBaseline sevenDayStoreLater (107 * msPerDay + 46800000) 7 1 30 =
     (Some busyRow, sevenDayStoreLater\<lparr>item_baselines := [busyRow]\<rparr>)"
proof -
  have days: "isoDay (subDays (107 * msPerDay + 46800000) 30) = 77"
    "isoDay (107 * msPerDay + 46800000) = 107"
    by (simp_all add: isoDay_def subDays_def msPerDay_def)
  show ?thesis
    by (simp add: AnalyticsEngine_computeItemBaseline_def days sevenDay_late_daily
        AnalyticsEngine_mean_def standardDeviation_def js_div_def insertOrReplaceBaseline_def
        sevenDayStoreLater_tables flatRow_key busyRow_def power2_eq_square Let_def)
qed

text \<open>
  Claim C7, as stated, says that repeated calls of \<open>computeItemBaseline\<close> for one
  item strictly increase the stored version, never store the same version twice and
  never overwrite a row. \<open>ComputationEngine.computeItemBaseline\<close> looks for the
  previous version among the rows whose period end equals the instant of the call, so
  two calls one hour apart both store version 1 for the same item.
  \<open>AnalyticsEngine.computeItemBaseline\<close> has no version and replaces the row of the
  same item and day: after a second call on the same day, with one more sale in
  between, the table holds the new row alone.
\<close>

theorem baseline_version_repeated:
  "map b_menuItemId
     (itemBaselineTable
        (ComputationEngine_computeItemBaseline
           (ComputationEngine_computeItemBaseline fiveDayStore (105 * msPerDay + 3600000) ''m1'' 30)
           (105 * msPerDay + 7200000) ''m1'' 30)) = [''m1'', ''m1'']
   \<and> map version
     (itemBaselineTable
        (ComputationEngine_computeItemBaseline
           (ComputationEngine_computeItemBaseline fiveDayStore (105 * msPerDay + 3600000) ''m1'' 30)
           (105 * msPerDay + 7200000) ''m1'' 30)) = [1, 1]
   \<and> item_baselines sevenDayStoreLater = [flatRow]
   \<and> item_baselines
         (snd (AnalyticsEngine_computeItemBaseline sevenDayStoreLater
                 (107 * msPerDay + 46800000) 7 1 30)) = [busyRow]"
  by (simp add: fiveDay_twice sevenDayStoreLater_tables sevenDay_second flatBaseline_def)

lemma ComputationEngine_appends:
  "(length (dailyQuery store mid (subDays now lb)) < 5 \<longrightarrow>
      ComputationEngine_computeItemBaseline store now mid lb = store)
   \<and> (5 \<le> length (dailyQuery store mid (subDays now lb)) \<longrightarrow>
        (\<exists>row. itemBaselineTable (ComputationEngine_computeItemBaseline store now mid lb) =
                 itemBaselineTable store @ [row]
               \<and> b_menuItemId row = mid \<and> periodEnd row = now))"
  by (simp add: ComputationEngine_computeItemBaseline_def Let_def)

lemma ComputationEngine_keeps_rows:
  "prefix (itemBaselineTable store)
     (itemBaselineTable (ComputationEngine_computeItemBaseline store now mid lb))"
  by (simp add: ComputationEngine_computeItemBaseline_def Let_def)

lemma AnalyticsEngine_replaces:
  assumes "AnalyticsEngine_computeItemBaseline db now itemId rid lb = (Some row, db')"
  shows "baseline_item_id row = itemId \<and> baseline_period_end row = isoDay now
         \<and> filter (\<lambda>r. baseline_item_id r = itemId \<and> baseline_period_end r = isoDay now)
              (item_baselines db') = [row]
         \<and> filter (\<lambda>r. \<not> (baseline_item_id r = itemId \<and> baseline_period_end r = isoDay now))
              (item_baselines db') =
            filter (\<lambda>r. \<not> (baseline_item_id r = itemId \<and> baseline_period_end r = isoDay now))
              (item_baselines db)"
proof -
  from assms have key: "baseline_item_id row = itemId" "baseline_period_end row = isoDay now"
    and db': "db' = insertOrReplaceBaseline db row"
    by (auto simp: AnalyticsEngine_computeItemBaseline_def Let_def split: if_splits)
  show ?thesis
    by (simp add: key db' insertOrReplaceBaseline_def)
qed

lemma AnalyticsEngine_too_few:
  "AnalyticsEngine_computeItemBaseline db now itemId rid lb = (None, db') \<Longrightarrow> db' = db"
  by (auto simp: AnalyticsEngine_computeItemBaseline_def Let_def split: if_splits)

lemma fiveDay_length:
  "length (dailyQuery fiveDayStore ''m1'' (subDays (105 * msPerDay + 3600000) 30)) = 5"
  using fiveDay_daily [of "105 * msPerDay + 3600000" fiveDayStore]
  by (simp add: msPerDay_def)

lemma twoWeek_length:
  "length (dailyQuery twoWeekStore ''m1'' (subDays (103 * msPerDay) 30)) = 2"
  by (simp add: dailyQuery_def twoWeekStore_def firstWeekOrder_def secondWeekOrder_def
      subDays_def isoDay_def msPerDay_def Let_def)

lemma emptyStore_baseline:
  "AnalyticsEngine_computeItemBaseline emptyStore (107 * msPerDay) 7 1 30 =
     (None, snd (AnalyticsEngine_computeItemBaseline emptyStore (107 * msPerDay) 7 1 30))"
  by (simp add: AnalyticsEngine_computeItemBaseline_def dailyData_def emptyStore_def Let_def)

text \<open>
  Claim C7, amended. \<open>ComputationEngine.computeItemBaseline\<close> never updates or
  overwrites a baseline row: the table it leaves starts with the table it found; with
  fewer than 5 days of sales it writes nothing, otherwise it appends exactly one row,
  for that item and with the instant of the call as period end.
  \<open>AnalyticsEngine.computeItemBaseline\<close> stores no version: when it returns a
  baseline, that row is afterwards the only one of its item and calendar day, the
  rows of every other item or day are as before, and when it returns null the store
  is unchanged. (The amended claim says nothing about the version numbers that
  \<open>ComputationEngine\<close> assigns.)
\<close>

theorem baseline_rows_appended_or_replaced:
  "prefix (itemBaselineTable store)
     (itemBaselineTable (ComputationEngine_computeItemBaseline store now mid lb))
   \<and> (length (dailyQuery store mid (subDays now lb)) < 5 \<longrightarrow>
        ComputationEngine_computeItemBaseline store now mid lb = store)
   \<and> (5 \<le> length (dailyQuery store mid (subDays now lb)) \<longrightarrow>
        (\<exists>row. itemBaselineTable (ComputationEngine_computeItemBaseline store now mid lb) =
                 itemBaselineTable store @ [row]
               \<and> b_menuItemId row = mid \<and> periodEnd row = now))
   \<and> (\<forall>row db'. AnalyticsEngine_computeItemBaseline db now' itemId rid lb' = (Some row, db') \<longrightarrow>
         baseline_item_id row = itemId \<and> baseline_period_end row = isoDay now'
         \<and> filter (\<lambda>r. baseline_item_id r = itemId \<and> baseline_period_end r = isoDay now')
              (item_baselines db') = [row]
         \<and> filter (\<lambda>r. \<not> (baseline_item_id r = itemId \<and> baseline_period_end r = isoDay now'))
              (item_baselines db') =
            filter (\<lambda>r. \<not> (baseline_item_id r = itemId \<and> baseline_period_end r = isoDay now'))
              (item_baselines db))
   \<and> (\<forall>db'. AnalyticsEngine_computeItemBaseline db now' itemId rid lb' = (None, db') \<longrightarrow> db' = db)"
  using ComputationEngine_keeps_rows [of store now mid lb]
    ComputationEngine_appends [of store mid now lb]
    AnalyticsEngine_replaces [of db now' itemId rid lb']
    AnalyticsEngine_too_few [of db now' itemId rid lb']
  by blast

theorem baseline_rows_appended_or_replaced_witness:
  "ComputationEngine_computeItemBaseline twoWeekStore (103 * msPerDay) ''m1'' 30 = twoWeekStore
   \<and> length (itemBaselineTable
         (ComputationEngine_computeItemBaseline fiveDayStore (105 * msPerDay + 3600000) ''m1'' 30)) = 1
   \<and> filter (\<lambda>r. baseline_item_id r = 7
                    \<and> baseline_period_end r = isoDay (107 * msPerDay + 46800000))
         (item_baselines (sevenDayStoreLater\<lparr>item_baselines := [busyRow]\<rparr>)) = [busyRow]
   \<and> snd (AnalyticsEngine_computeItemBaseline emptyStore (107 * msPerDay) 7 1 30) = emptyStore"
proof -
  have 1: "ComputationEngine_computeItemBaseline twoWeekStore (103 * msPerDay) ''m1'' 30 = twoWeekStore"
    using baseline_rows_appended_or_replaced
      [of twoWeekStore "103 * msPerDay" "''m1''" 30 emptyStore 0 0 0 0]
    by (simp add: twoWeek_length)
  have "5 \<le> length (dailyQuery fiveDayStore ''m1'' (subDays (105 * msPerDay + 3600000) 30))"
    by (simp add: fiveDay_length)
  with baseline_rows_appended_or_replaced
      [of fiveDayStore "105 * msPerDay + 3600000" "''m1''" 30 emptyStore 0 0 0 0]
  have "\<exists>row. itemBaselineTable
          (ComputationEngine_computeItemBaseline fiveDayStore (105 * msPerDay + 3600000) ''m1'' 30) =
        itemBaselineTable fiveDayStore @ [row]"
    by blast
  then have 2: "length (itemBaselineTable
         (ComputationEngine_computeItemBaseline fiveDayStore (105 * msPerDay + 3600000) ''m1'' 30)) = 1"
    by (auto simp: fiveDayStore_def)
  have 3: "filter (\<lambda>r. baseline_item_id r = 7
                    \<and> baseline_period_end r = isoDay (107 * msPerDay + 46800000))
         (item_baselines (sevenDayStoreLater\<lparr>item_baselines := [busyRow]\<rparr>)) = [busyRow]"
    using baseline_rows_appended_or_replaced
      [of twoWeekStore 0 "[]" 0 sevenDayStoreLater "107 * msPerDay + 46800000" 7 1 30]
      sevenDay_second
    by blast
  have 4: "snd (AnalyticsEngine_computeItemBaseline emptyStore (107 * msPerDay) 7 1 30) = emptyStore"
    using baseline_rows_appended_or_replaced
      [of twoWeekStore 0 "[]" 0 emptyStore "107 * msPerDay" 7 1 30] emptyStore_baseline
    by blast
  from 1 2 3 4 show ?thesis by blast
qed

end
